theory Spec2Isabelle
  imports Main "HOL-Library.AList"
begin

section \<open>The learner of the distributed soft actor-critic trainer\<close>

text \<open>
  This theory embeds the coordination code of \<^verbatim>\<open>ds/learner.py\<close>: the client of the
  replay service with its three retrying calls, the training loop that consumes sampled
  batches, the parsing of the command line and of the configuration file, and the
  websocket hub that registers actors. Network peers, the neural network and the
  evaluation thread are outside the file; they appear as parameters (a \<open>world\<close>) that
  answer each request of the code.
\<close>

subsection \<open>Values decoded from JSON\<close>

text \<open>
  \<^verbatim>\<open>r.json()\<close> yields Python values built from \<^verbatim>\<open>None\<close>, booleans, numbers, strings,
  lists and dictionaries. The type of numbers is left open (\<open>'n\<close>); only its zero
  matters, for Python's truth test. A dictionary is kept as the list of its items, with
  distinct keys, in insertion order.
\<close>

datatype 'n json =
    JNull
  | JBool bool
  | JNum 'n
  | JStr string
  | JArr "'n json list"
  | JObj "(string \<times> 'n json) list"

text \<open>Python's truth value of a decoded value, as tested by \<^verbatim>\<open>if data:\<close>.\<close>

fun truthy :: "('n::zero) json \<Rightarrow> bool" where
  "truthy JNull = False"
| "truthy (JBool b) = b"
| "truthy (JNum x) = (x \<noteq> 0)"
| "truthy (JStr s) = (s \<noteq> [])"
| "truthy (JArr xs) = (xs \<noteq> [])"
| "truthy (JObj kvs) = (kvs \<noteq> [])"

text \<open>The exceptions that the modelled code can raise to its caller.\<close>

datatype py_error =
    JSONDecodeError
  | KeyError string
  | TypeError
  | ValueError
  | AttributeError
  | RuntimeError
  | IOError
  | ModelError string

text \<open>
  Subscription \<^verbatim>\<open>data[key]\<close> with a string key: a dictionary answers with the value or
  raises \<^verbatim>\<open>KeyError\<close>; every other decoded value raises \<^verbatim>\<open>TypeError\<close> (a list or a
  string wants an integer index, the others are not subscriptable).
\<close>

fun subscript :: "'n json \<Rightarrow> string \<Rightarrow> py_error + 'n json" where
  "subscript (JObj kvs) k = (case map_of kvs k of None \<Rightarrow> Inl (KeyError k) | Some v \<Rightarrow> Inr v)"
| "subscript _ k = Inl TypeError"

subsection \<open>The HTTP exchange with the replay service\<close>

text \<open>
  A call of \<^verbatim>\<open>requests.get\<close> or \<^verbatim>\<open>requests.post\<close> either raises (the transport failed;
  the string is \<^verbatim>\<open>str(e)\<close>) or completes with a response. A completed response has a
  status code and a body; \<open>resp_json\<close> is what \<^verbatim>\<open>r.json()\<close> decodes from the body, and
  \<open>None\<close> when the body is not valid JSON.
\<close>

record 'n response =
  status_code :: nat
  resp_json :: "'n json option"

datatype 'n request =
    GET string
  | POST string "'n json"

datatype 'n outcome =
    Raises string
  | Completes "'n response"

text \<open>What the training thread does, in order.\<close>

datatype 'n event =
    HttpRaised "'n request" string
  | HttpCompleted "'n request" "'n response"
  | LogError string
  | Sleep nat
  | EvalStarted
  | Trained "'n json list" "'n json" "'n json list"

datatype thread_state = NotStarted | Alive | Dead

text \<open>
  The state of the training thread: the number of HTTP attempts made so far (the index
  of the next attempt), the events so far, the evaluation thread object and the model.
\<close>

record ('m, 'n) lstate =
  attempts :: nat
  events :: "'n event list"
  t_evaluation :: thread_state
  sac :: 'm

text \<open>
  The world outside the training thread: the replay service answers the attempt with a
  given index, the model's training step is a function of the model and the batch, and
  \<open>eval_dies k\<close> says whether a started evaluation thread has ended (by an exception of
  the environment) when the attempt counter is \<open>k\<close>. \<open>replay_host\<close> and \<open>replay_port\<close>
  are the attributes of the learner as the f-string prints them.
\<close>

record ('m, 'n) world =
  replay :: "nat \<Rightarrow> 'n request \<Rightarrow> 'n outcome"
  sac_train :: "'m \<Rightarrow> 'n json list \<Rightarrow> 'n json \<Rightarrow> py_error + ('m \<times> nat \<times> 'n json list)"
  eval_dies :: "nat \<Rightarrow> bool"
  replay_host :: string
  replay_port :: string

definition replay_url :: "('m, 'n) world \<Rightarrow> string \<Rightarrow> string" where
  "replay_url w path = ''http://'' @ replay_host w @ '':'' @ replay_port w @ path"

text \<open>The three requests that the client sends.\<close>

definition sample_request :: "('m, 'n) world \<Rightarrow> 'n request" where
  "sample_request w = GET (replay_url w ''/sample'')"

definition clear_request :: "('m, 'n) world \<Rightarrow> 'n request" where
  "clear_request w = GET (replay_url w ''/clear'')"

definition update_request :: "('m, 'n) world \<Rightarrow> 'n json \<Rightarrow> 'n json \<Rightarrow> 'n request" where
  "update_request w points td_errors =
     POST (replay_url w ''/update'') (JObj [(''points'', points), (''td_errors'', td_errors)])"

text \<open>
  The three calls of the client share one loop: \<^verbatim>\<open>while True: try: request except
  Exception as e: logger.error(prefix + str(e)); time.sleep(1) else: break\<close>. The loop
  ends with the first attempt that completes, whatever its status code, and does not
  end when every attempt raises: then the result is \<open>None\<close>.
\<close>

definition failed_attempt ::
  "string \<Rightarrow> 'n request \<Rightarrow> string \<Rightarrow> ('m, 'n) lstate \<Rightarrow> ('m, 'n) lstate" where
  "failed_attempt prefix req e st =
     st\<lparr>attempts := attempts st + 1,
        events := events st @ [HttpRaised req e, LogError (prefix @ e), Sleep 1]\<rparr>"

definition completed_attempt ::
  "'n request \<Rightarrow> 'n response \<Rightarrow> ('m, 'n) lstate \<Rightarrow> ('m, 'n) lstate" where
  "completed_attempt req r st =
     st\<lparr>attempts := attempts st + 1, events := events st @ [HttpCompleted req r]\<rparr>"

partial_function (option) request_until_complete ::
  "('m, 'n) world \<Rightarrow> string \<Rightarrow> 'n request \<Rightarrow> ('m, 'n) lstate
     \<Rightarrow> ('n response \<times> ('m, 'n) lstate) option" where
  "request_until_complete w prefix req st =
     (case replay w (attempts st) req of
        Raises e \<Rightarrow> request_until_complete w prefix req (failed_attempt prefix req e st)
      | Completes r \<Rightarrow> Some (r, completed_attempt req r st))"

text \<open>\<^verbatim>\<open>r.json()\<close>\<close>

definition decoded :: "'n response \<Rightarrow> py_error + 'n json" where
  "decoded r = (case resp_json r of None \<Rightarrow> Inl JSONDecodeError | Some v \<Rightarrow> Inr v)"

text \<open>\<^verbatim>\<open>_get_sampled_data\<close>: the decoding \<^verbatim>\<open>r.json()\<close> comes after the loop.\<close>

definition get_sampled_data ::
  "('m, 'n) world \<Rightarrow> ('m, 'n) lstate \<Rightarrow> ((py_error + 'n json) \<times> ('m, 'n) lstate) option" where
  "get_sampled_data w st =
     (case request_until_complete w ''exception _get_sampled_trans: ''
             (sample_request w) st of
        None \<Rightarrow> None
      | Some (r, st') \<Rightarrow> Some (decoded r, st'))"

text \<open>\<^verbatim>\<open>_update_td_errors\<close>: the response is dropped.\<close>

definition update_td_errors ::
  "('m, 'n) world \<Rightarrow> 'n json \<Rightarrow> 'n json \<Rightarrow> ('m, 'n) lstate \<Rightarrow> ('m, 'n) lstate option" where
  "update_td_errors w points td_errors st =
     map_option snd
       (request_until_complete w ''exception _update_td_errors: ''
          (update_request w points td_errors) st)"

text \<open>\<^verbatim>\<open>_clear_replay_buffer\<close>: the response is dropped.\<close>

definition clear_replay_buffer ::
  "('m, 'n) world \<Rightarrow> ('m, 'n) lstate \<Rightarrow> ('m, 'n) lstate option" where
  "clear_replay_buffer w st =
     map_option snd
       (request_until_complete w ''_clear_replay_buffer: ''
          (clear_request w) st)"

subsection \<open>The training loop\<close>

text \<open>
  \<^verbatim>\<open>if not t_evaluation.is_alive(): t_evaluation.start()\<close>. A thread object is alive from
  its start until its target returns or raises; \<^verbatim>\<open>start()\<close> on a thread object that was
  started before raises \<^verbatim>\<open>RuntimeError\<close>. The target \<^verbatim>\<open>_start_policy_evaluation\<close> is
  a \<^verbatim>\<open>while True\<close> loop, so the thread ends only by an exception of the environment,
  which the world decides.
\<close>

definition is_alive :: "('m, 'n) world \<Rightarrow> ('m, 'n) lstate \<Rightarrow> thread_state" where
  "is_alive w st =
     (if t_evaluation st = Alive \<and> eval_dies w (attempts st) then Dead else t_evaluation st)"

definition start_evaluation ::
  "('m, 'n) world \<Rightarrow> ('m, 'n) lstate \<Rightarrow> py_error + ('m, 'n) lstate" where
  "start_evaluation w st =
     (case is_alive w st of
        Alive \<Rightarrow> Inr st
      | NotStarted \<Rightarrow> Inr (st\<lparr>events := events st @ [EvalStarted], t_evaluation := Alive\<rparr>)
      | Dead \<Rightarrow> Inl RuntimeError)"

text \<open>
  Lines 249 to 252: every element of \<^verbatim>\<open>trans\<close> is replaced by its array, then
  \<^verbatim>\<open>s, a, r, s_, done = trans\<close> wants exactly five. A list of another length raises
  \<^verbatim>\<open>ValueError\<close>; so do an empty string and an empty dictionary (nothing to replace,
  nothing to unpack). A non-empty string refuses the assignment (\<^verbatim>\<open>TypeError\<close>), a
  non-empty dictionary grows while it is iterated (\<^verbatim>\<open>RuntimeError\<close>), and the other
  values cannot be enumerated (\<^verbatim>\<open>TypeError\<close>).
\<close>

fun unpack_trans :: "'n json \<Rightarrow> py_error + 'n json list" where
  "unpack_trans (JArr xs) = (if length xs = 5 then Inr xs else Inl ValueError)"
| "unpack_trans (JObj kvs) = (if kvs = [] then Inl ValueError else Inl RuntimeError)"
| "unpack_trans (JStr s) = (if s = [] then Inl ValueError else Inl TypeError)"
| "unpack_trans _ = Inl TypeError"

text \<open>
  The result of a piece of the loop body: the exception that ended it, if any, and the
  state it left. \<open>None\<close> in front of the pair means that a retry loop never ended.
\<close>

type_synonym ('m, 'n) step_result = "py_error option \<times> ('m, 'n) lstate"

text \<open>Lines 245 to 254, for a truthy \<^verbatim>\<open>data\<close>, after the evaluation thread was looked at.\<close>

definition train_on_batch ::
  "('m, 'n) world \<Rightarrow> 'n json \<Rightarrow> ('m, 'n) lstate \<Rightarrow> ('m, 'n) step_result option" where
  "train_on_batch w data st =
     (case subscript data ''trans'' of
        Inl e \<Rightarrow> Some (Some e, st)
      | Inr trans' \<Rightarrow>
     (case subscript data ''is_weights'' of
        Inl e \<Rightarrow> Some (Some e, st)
      | Inr is_weights \<Rightarrow>
     (case unpack_trans trans' of
        Inl e \<Rightarrow> Some (Some e, st)
      | Inr arrays \<Rightarrow>
     (case sac_train w (sac st) arrays is_weights of
        Inl e \<Rightarrow> Some (Some e, st)
      | Inr (model, curr_step, td_errors) \<Rightarrow>
          (let st' = st\<lparr>events := events st @ [Trained arrays is_weights td_errors],
                         sac := model\<rparr>
           in case subscript data ''points'' of
                Inl e \<Rightarrow> Some (Some e, st')
              | Inr points \<Rightarrow>
                  map_option (Pair None) (update_td_errors w points (JArr td_errors) st'))))))"

text \<open>One turn of \<^verbatim>\<open>while True\<close> in \<^verbatim>\<open>_run_training_client\<close>.\<close>

definition training_iteration ::
  "('m, 'n::zero) world \<Rightarrow> ('m, 'n) lstate \<Rightarrow> ('m, 'n) step_result option" where
  "training_iteration w st =
     (case get_sampled_data w st of
        None \<Rightarrow> None
      | Some (Inl e, st1) \<Rightarrow> Some (Some e, st1)
      | Some (Inr data, st1) \<Rightarrow>
          if truthy data then
            (case start_evaluation w st1 of
               Inl e \<Rightarrow> Some (Some e, st1)
             | Inr st2 \<Rightarrow> train_on_batch w data st2)
          else Some (None, st1))"

text \<open>
  The loop has no exit of its own. \<open>training_loop n\<close> is the state after \<open>n\<close> turns, or
  after the turn that raised.
\<close>

fun training_loop ::
  "nat \<Rightarrow> ('m, 'n::zero) world \<Rightarrow> ('m, 'n) lstate \<Rightarrow> ('m, 'n) step_result option" where
  "training_loop 0 w st = Some (None, st)"
| "training_loop (Suc n) w st =
     (case training_iteration w st of
        None \<Rightarrow> None
      | Some (Some e, st') \<Rightarrow> Some (Some e, st')
      | Some (None, st') \<Rightarrow> training_loop n w st')"

text \<open>
  \<^verbatim>\<open>_run_training_client\<close>: a fresh thread object, the buffer cleared once, then the
  loop.
\<close>

definition run_training_client ::
  "nat \<Rightarrow> ('m, 'n::zero) world \<Rightarrow> ('m, 'n) lstate \<Rightarrow> ('m, 'n) step_result option" where
  "run_training_client n w st =
     (case clear_replay_buffer w (st\<lparr>t_evaluation := NotStarted\<rparr>) of
        None \<Rightarrow> None
      | Some st' \<Rightarrow> training_loop n w st')"

subsection \<open>Observations on the events of the training thread\<close>

text \<open>The log and sleep events of a run of failed attempts, one triple for each.\<close>

definition retry_events :: "string \<Rightarrow> 'n request \<Rightarrow> string list \<Rightarrow> 'n event list" where
  "retry_events prefix req msgs =
     concat (map (\<lambda>e. [HttpRaised req e, LogError (prefix @ e), Sleep 1]) msgs)"

text \<open>
  From attempt \<open>k\<close> on, the service lets the request fail with the messages \<open>msgs\<close>, one
  attempt each, and completes the next attempt with \<open>r\<close>.
\<close>

definition fails_then_completes ::
  "('m, 'n) world \<Rightarrow> 'n request \<Rightarrow> nat \<Rightarrow> string list \<Rightarrow> 'n response \<Rightarrow> bool" where
  "fails_then_completes w req k msgs r \<longleftrightarrow>
     (\<forall>i < length msgs. replay w (k + i) req = Raises (msgs ! i)) \<and>
     replay w (k + length msgs) req = Completes r"

definition after_exchange ::
  "string \<Rightarrow> 'n request \<Rightarrow> string list \<Rightarrow> 'n response \<Rightarrow> ('m, 'n) lstate
     \<Rightarrow> ('m, 'n) lstate" where
  "after_exchange prefix req msgs r st =
     st\<lparr>attempts := attempts st + length msgs + 1,
        events := events st @ retry_events prefix req msgs @ [HttpCompleted req r]\<rparr>"

text \<open>A completed sample whose decoded body is truthy: a non-empty batch.\<close>

fun is_batch :: "('m, 'n::zero) world \<Rightarrow> 'n event \<Rightarrow> bool" where
  "is_batch w (HttpCompleted req r) =
     (req = sample_request w \<and> (case resp_json r of None \<Rightarrow> False | Some v \<Rightarrow> truthy v))"
| "is_batch w _ = False"

text \<open>A completed exchange that carried a priority update.\<close>

fun is_update :: "('m, 'n) world \<Rightarrow> 'n event \<Rightarrow> bool" where
  "is_update w (HttpCompleted (POST url payload) r) = (url = replay_url w ''/update'')"
| "is_update w _ = False"

text \<open>
  What a completed post carries under \<^verbatim>\<open>'points'\<close> and \<^verbatim>\<open>'td_errors'\<close>: the lengths
  of the two lists, when it carries two lists.
\<close>

fun posted_lengths :: "'n event \<Rightarrow> (nat \<times> nat) option" where
  "posted_lengths (HttpCompleted (POST url payload) r) =
     (case (subscript payload ''points'', subscript payload ''td_errors'') of
        (Inr (JArr ps), Inr (JArr tds)) \<Rightarrow> Some (length ps, length tds)
      | _ \<Rightarrow> None)"
| "posted_lengths _ = None"

text \<open>An attempt to post something, failed or completed.\<close>

fun is_post :: "'n event \<Rightarrow> bool" where
  "is_post (HttpRaised (POST url payload) e) = True"
| "is_post (HttpCompleted (POST url payload) r) = True"
| "is_post _ = False"

fun is_trained :: "'n event \<Rightarrow> bool" where
  "is_trained (Trained arrays is_weights td_errors) = True"
| "is_trained _ = False"

text \<open>The number of transitions of a batch: the length of its state array.\<close>

fun transitions :: "'n json list \<Rightarrow> nat option" where
  "transitions (JArr states # rest) = Some (length states)"
| "transitions _ = None"

text \<open>
  A batch as the replay service sends it: the five arrays, the weights and the points,
  with one point for each transition.
\<close>

definition batch_of ::
  "'n json list \<Rightarrow> 'n json \<Rightarrow> 'n json list \<Rightarrow> 'n json \<Rightarrow> bool" where
  "batch_of arrays is_weights points data \<longleftrightarrow>
     length arrays = 5 \<and>
     transitions arrays = Some (length points) \<and>
     subscript data ''trans'' = Inr (JArr arrays) \<and>
     subscript data ''is_weights'' = Inr is_weights \<and>
     subscript data ''points'' = Inr (JArr points)"

text \<open>An event that is neither a non-empty batch nor the start of the evaluation.\<close>

definition quiet :: "('m, 'n::zero) world \<Rightarrow> 'n event \<Rightarrow> bool" where
  "quiet w e \<longleftrightarrow> \<not> is_batch w e \<and> e \<noteq> EvalStarted"

text \<open>
  Either the evaluation thread was never started and no non-empty batch has arrived,
  or it was started right after the first non-empty batch and at no other time.
\<close>

definition started_once :: "('m, 'n::zero) world \<Rightarrow> ('m, 'n) lstate \<Rightarrow> bool" where
  "started_once w st \<longleftrightarrow>
     (t_evaluation st = NotStarted \<and> (\<forall>e \<in> set (events st). quiet w e)) \<or>
     (t_evaluation st \<noteq> NotStarted \<and>
      (\<exists>pre b post. events st = pre @ b # EvalStarted # post \<and> is_batch w b \<and>
         (\<forall>e \<in> set pre. quiet w e) \<and> EvalStarted \<notin> set post))"

subsection \<open>The command line and the configuration file\<close>

text \<open>
  \<^verbatim>\<open>yaml.load\<close> yields Python values as well; here integers are kept apart, since the
  ports are integers.
\<close>

datatype yaml =
    YNull
  | YBool bool
  | YInt int
  | YStr string
  | YList "yaml list"
  | YMap "(string \<times> yaml) list"

text \<open>
  The attributes of the learner that \<^verbatim>\<open>_init_config\<close> reads or writes (the class gives
  the defaults), and its three dictionaries.
\<close>

record learner =
  self_replay_host :: yaml
  self_replay_port :: yaml
  self_learner_port :: yaml
  self_websocket_port :: yaml
  self_build_path :: yaml
  self_build_port :: int
  config :: "(string \<times> yaml) list"
  reset_config :: "(string \<times> yaml) list"
  agent_config :: "(string \<times> yaml) list"

text \<open>
  What \<^verbatim>\<open>_init_config\<close> takes from outside: the file behind a path, opened and parsed
  (or the exception of doing so), Python's \<^verbatim>\<open>int\<close> on a string (\<open>None\<close> for
  \<^verbatim>\<open>ValueError\<close>), the start time \<^verbatim>\<open>NOW\<close> and \<^verbatim>\<open>sys.platform\<close>.
\<close>

record config_env =
  read_yaml :: "string \<Rightarrow> py_error + yaml"
  py_int :: "string \<Rightarrow> int option"
  now :: string
  platform :: string

definition new_learner :: "config_env \<Rightarrow> learner" where
  "new_learner env =
     \<lparr>self_replay_host = YStr ''127.0.0.1'',
      self_replay_port = YInt 61000,
      self_learner_port = YInt 61001,
      self_websocket_port = YInt 61002,
      self_build_path = YNull,
      self_build_port = 5006,
      config = [(''name'', YStr (now env)), (''sac'', YStr ''sac''),
                (''save_model_per_step'', YInt 10000)],
      reset_config = [(''copy'', YInt 1)],
      agent_config = []\<rparr>"

text \<open>\<^verbatim>\<open>for kk, vv in v.items(): d[kk] = vv\<close>\<close>

fun update_all :: "(string \<times> yaml) list \<Rightarrow> (string \<times> yaml) list \<Rightarrow> (string \<times> yaml) list" where
  "update_all [] d = d"
| "update_all ((kk, vv) # rest) d = update_all rest (AList.update kk vv d)"

text \<open>
  One item of the configuration file (lines 69 to 90). \<^verbatim>\<open>v[sys.platform]\<close> with a
  string key raises \<^verbatim>\<open>TypeError\<close> on everything but a dictionary, and \<^verbatim>\<open>v.items()\<close>
  raises \<^verbatim>\<open>AttributeError\<close> on everything but a dictionary.
\<close>

definition config_item :: "config_env \<Rightarrow> string \<Rightarrow> yaml \<Rightarrow> learner \<Rightarrow> py_error + learner" where
  "config_item env k v l =
     (if k = ''replay_host'' then Inr (l\<lparr>self_replay_host := v\<rparr>)
      else if k = ''replay_port'' then Inr (l\<lparr>self_replay_port := v\<rparr>)
      else if k = ''learner_port'' then Inr (l\<lparr>self_learner_port := v\<rparr>)
      else if k = ''websocket_port'' then Inr (l\<lparr>self_websocket_port := v\<rparr>)
      else if k = ''build_path'' then
        (case v of
           YMap paths \<Rightarrow>
             (case map_of paths (platform env) of
                None \<Rightarrow> Inl (KeyError (platform env))
              | Some p \<Rightarrow> Inr (l\<lparr>self_build_path := p\<rparr>))
         | _ \<Rightarrow> Inl TypeError)
      else if k = ''reset_config'' then
        (case v of
           YNull \<Rightarrow> Inr l
         | YMap items \<Rightarrow> Inr (l\<lparr>reset_config := update_all items (reset_config l)\<rparr>)
         | _ \<Rightarrow> Inl AttributeError)
      else if k = ''sac_config'' then
        (case v of
           YNull \<Rightarrow> Inr l
         | YMap items \<Rightarrow> Inr (l\<lparr>agent_config := update_all items (agent_config l)\<rparr>)
         | _ \<Rightarrow> Inl AttributeError)
      else Inr (l\<lparr>config := AList.update k v (config l)\<rparr>))"

fun config_items :: "config_env \<Rightarrow> (string \<times> yaml) list \<Rightarrow> learner \<Rightarrow> py_error + learner" where
  "config_items env [] l = Inr l"
| "config_items env ((k, v) # rest) l =
     (case config_item env k v l of Inl e \<Rightarrow> Inl e | Inr l' \<Rightarrow> config_items env rest l')"

text \<open>
  The first loop over the options (lines 64 to 91): the first \<^verbatim>\<open>-c\<close> or
  \<^verbatim>\<open>--config\<close> is read, then \<^verbatim>\<open>break\<close>.
\<close>

fun load_config_file :: "config_env \<Rightarrow> (string \<times> string) list \<Rightarrow> learner \<Rightarrow> py_error + learner" where
  "load_config_file env [] l = Inr l"
| "load_config_file env ((opt, arg) # opts) l =
     (if opt = ''-c'' \<or> opt = ''--config'' then
        (case read_yaml env arg of
           Inl e \<Rightarrow> Inl e
         | Inr (YMap items) \<Rightarrow> config_items env items l
         | Inr _ \<Rightarrow> Inl AttributeError)
      else load_config_file env opts l)"

text \<open>\<^verbatim>\<open>s.replace(old, new)\<close>, every occurrence from the left.\<close>

function str_replace :: "string \<Rightarrow> string \<Rightarrow> string \<Rightarrow> string" where
  "str_replace old new s =
     (if old = [] then new @ concat (map (\<lambda>c. c # new) s)
      else if s = [] then []
      else if take (length old) s = old then new @ str_replace old new (drop (length old) s)
      else hd s # str_replace old new (tl s))"
  by pat_completeness auto
termination
  by (relation "measure (\<lambda>(old, new, s). length s)") auto

declare str_replace.simps [simp del]

text \<open>
  One turn of the second loop over the options (lines 93 to 101). \<open>opts\<close> is what
  \<^verbatim>\<open>getopt.getopt\<close> returned: the name of a short option with one dash in front, the
  name of a long option with two. The first branch compares with \<^verbatim>\<open>'learner_port'\<close>
  and evaluates the comparison \<^verbatim>\<open>config['learner_port'] == int(arg)\<close>, whose value is
  dropped.
\<close>

definition override :: "config_env \<Rightarrow> string \<Rightarrow> string \<Rightarrow> learner \<Rightarrow> py_error + learner" where
  "override env opt arg l =
     (if opt = ''learner_port'' then
        (case map_of (config l) ''learner_port'' of
           None \<Rightarrow> Inl (KeyError ''learner_port'')
         | Some v \<Rightarrow> (case py_int env arg of None \<Rightarrow> Inl ValueError | Some i \<Rightarrow> Inr l))
      else if opt = ''--build_port'' then
        (case py_int env arg of
           None \<Rightarrow> Inl ValueError
         | Some i \<Rightarrow> Inr (l\<lparr>self_build_port := i\<rparr>))
      else if opt = ''-n'' \<or> opt = ''--name'' then
        Inr (l\<lparr>config :=
               AList.update ''name'' (YStr (str_replace ''{time}'' (now env) arg)) (config l)\<rparr>)
      else if opt = ''--sac'' then
        Inr (l\<lparr>config := AList.update ''sac'' (YStr arg) (config l)\<rparr>)
      else Inr l)"

fun overrides :: "config_env \<Rightarrow> (string \<times> string) list \<Rightarrow> learner \<Rightarrow> py_error + learner" where
  "overrides env [] l = Inr l"
| "overrides env ((opt, arg) # opts) l =
     (case override env opt arg l of Inl e \<Rightarrow> Inl e | Inr l' \<Rightarrow> overrides env opts l')"

text \<open>
  \<^verbatim>\<open>_init_config\<close> up to line 101. What follows writes the configuration to a file
  and to the log and changes none of the attributes.
\<close>

definition init_config :: "config_env \<Rightarrow> (string \<times> string) list \<Rightarrow> py_error + learner" where
  "init_config env opts =
     (case load_config_file env opts (new_learner env) of
        Inl e \<Rightarrow> Inl e
      | Inr l \<Rightarrow> overrides env opts l)"

text \<open>\<^verbatim>\<open>app.run(host='0.0.0.0', port=self._learner_port)\<close>\<close>

definition learner_server_port :: "learner \<Rightarrow> yaml" where
  "learner_server_port l = self_learner_port l"

subsection \<open>The websocket hub\<close>

text \<open>
  A connection is a websocket object with its remote address. The registry
  \<^verbatim>\<open>_websocket_clients\<close> is a set; it is kept as the list of its members without
  repetition, in the order of their arrival. Python iterates a set in an order of its
  own, so where two or more members are listed (the lines of the log, the sends of a
  broadcast) the order in the model is one of the orders that the code can show; which
  members are listed, and how many, does not depend on it.
\<close>

record conn =
  conn_id :: nat
  remote_host :: string
  remote_port :: nat

text \<open>What the hub does: a line for the log, a message to a connection.\<close>

datatype hub_action = LogInfo string | Send conn string

record hub =
  websocket_clients :: "conn list"
  actions :: "hub_action list"

text \<open>The decimal digits of a number, as the f-string prints it.\<close>

fun str_nat :: "nat \<Rightarrow> string" where
  "str_nat n =
     (if n < 10 then [''0123456789'' ! n]
      else str_nat (n div 10) @ [''0123456789'' ! (n mod 10)])"

declare str_nat.simps [simp del]

text \<open>\<^verbatim>\<open>f'\n[{i+1}]. {client.remote_address[0]} : {client.remote_address[1]}'\<close>\<close>

definition client_line :: "nat \<Rightarrow> conn \<Rightarrow> string" where
  "client_line i client =
     [CHR 0x0A] @ ''['' @ str_nat (i + 1) @ '']. '' @ remote_host client @ '' : '' @
     str_nat (remote_port client)"

text \<open>
  \<^verbatim>\<open>print_websocket_clients\<close>: the number of members, then one line for each with its
  remote address.
\<close>

definition log_str :: "conn list \<Rightarrow> string" where
  "log_str clients =
     str_nat (length clients) @ '' active actors'' @
     concat (map (\<lambda>(i, client). client_line i client) (enumerate 0 clients))"

definition print_websocket_clients :: "hub \<Rightarrow> hub" where
  "print_websocket_clients h = h\<lparr>actions := actions h @ [LogInfo (log_str (websocket_clients h))]\<rparr>"

text \<open>\<^verbatim>\<open>self._websocket_clients.add(websocket)\<close>\<close>

definition set_add :: "conn \<Rightarrow> conn list \<Rightarrow> conn list" where
  "set_add c cs = (if c \<in> set cs then cs else cs @ [c])"

text \<open>
  The handler of \<^verbatim>\<open>websockets.ConnectionClosed\<close> (lines 283 to 289): \<^verbatim>\<open>remove\<close> raises
  \<^verbatim>\<open>KeyError\<close> for a connection that is not registered, which is passed over without
  a log line.
\<close>

definition connection_closed :: "conn \<Rightarrow> hub \<Rightarrow> hub" where
  "connection_closed websocket h =
     (if websocket \<in> set (websocket_clients h)
      then print_websocket_clients
             (h\<lparr>websocket_clients := removeAll websocket (websocket_clients h)\<rparr>)
      else h)"

text \<open>
  What the handler of one connection meets, one atomic step of the event loop each:
  \<^item> \<open>Message c m sent\<close>: \<^verbatim>\<open>async for\<close> yields the message \<open>m\<close>; \<open>sent\<close> says whether
    a reply, if one is sent, goes out (otherwise \<^verbatim>\<open>send\<close> raises
    \<^verbatim>\<open>ConnectionClosed\<close>);
  \<^item> \<open>IterationEnds c\<close>: the iteration ends without an exception. The iterator of the
    websockets library ends so when the peer closes the connection in an orderly way
    (close code 1000 or 1001);
  \<^item> \<open>ConnectionClosed c\<close>: the iteration raises \<^verbatim>\<open>ConnectionClosed\<close>, which the
    library does when the connection ends in any other way (a transport error, a
    protocol error).
\<close>

datatype ws_event =
    Message conn string bool
  | IterationEnds conn
  | ConnectionClosed conn

fun websocket_open :: "ws_event \<Rightarrow> hub \<Rightarrow> hub" where
  "websocket_open (Message websocket message sent) h =
     (if message = ''actor'' then
        (let h1 = print_websocket_clients
                    (h\<lparr>websocket_clients := set_add websocket (websocket_clients h)\<rparr>);
             h2 = h1\<lparr>actions := actions h1 @ [Send websocket ''reset'']\<rparr>
         in if sent then h2 else connection_closed websocket h2)
      else h)"
| "websocket_open (IterationEnds websocket) h = h"
| "websocket_open (ConnectionClosed websocket) h = connection_closed websocket h"

text \<open>
  \<^verbatim>\<open>send_to_all\<close>: one \<^verbatim>\<open>send\<close> for each member of the registry; a
  \<^verbatim>\<open>ConnectionClosed\<close> of one of them is passed over.
\<close>

definition send_to_all :: "string \<Rightarrow> hub \<Rightarrow> hub" where
  "send_to_all message h =
     h\<lparr>actions := actions h @ map (\<lambda>client. Send client message) (websocket_clients h)\<rparr>"

text \<open>The hub after a sequence of steps of its handlers.\<close>

definition hub_run :: "ws_event list \<Rightarrow> hub \<Rightarrow> hub" where
  "hub_run evs h = fold websocket_open evs h"

subsection \<open>Example inputs\<close>

text \<open>A training thread that has not done anything yet.\<close>

definition idle_state :: "(unit, int) lstate" where
  "idle_state = \<lparr>attempts = 0, events = [], t_evaluation = NotStarted, sac = ()\<rparr>"

text \<open>
  A replay service that refuses the first two attempts and completes every later one
  with the response \<open>r\<close>.
\<close>

definition flaky_world :: "'n response \<Rightarrow> (unit, 'n) world" where
  "flaky_world r =
     \<lparr>replay = (\<lambda>k req. if k < 2 then Raises ''refused'' else Completes r),
      sac_train = (\<lambda>model arrays is_weights. Inl (ModelError ''unused'')),
      eval_dies = (\<lambda>k. False),
      replay_host = ''127.0.0.1'',
      replay_port = ''61000''\<rparr>"

text \<open>A completed response of a failing server, with a body that is no JSON.\<close>

definition not_json :: "int response" where
  "not_json = \<lparr>status_code = 500, resp_json = None\<rparr>"

text \<open>A replay service that completes every attempt with the response \<open>r\<close>.\<close>

definition steady_world :: "'n response \<Rightarrow> (unit, 'n) world" where
  "steady_world r =
     \<lparr>replay = (\<lambda>k req. Completes r),
      sac_train = (\<lambda>model arrays is_weights. Inl (ModelError ''unused'')),
      eval_dies = (\<lambda>k. False),
      replay_host = ''127.0.0.1'',
      replay_port = ''61000''\<rparr>"

text \<open>A completed response with a page of HTML for a body.\<close>

definition html_page :: "int response" where
  "html_page = \<lparr>status_code = 200, resp_json = None\<rparr>"

text \<open>A completed response with the empty dictionary for a body.\<close>

definition empty_sample :: "int response" where
  "empty_sample = \<lparr>status_code = 200, resp_json = Some (JObj [])\<rparr>"

text \<open>The hub before any connection, and two actors.\<close>

definition new_hub :: hub where
  "new_hub = \<lparr>websocket_clients = [], actions = []\<rparr>"

definition actor1 :: conn where
  "actor1 = \<lparr>conn_id = 1, remote_host = ''10.0.0.1'', remote_port = 5001\<rparr>"

definition actor2 :: conn where
  "actor2 = \<lparr>conn_id = 2, remote_host = ''10.0.0.2'', remote_port = 40022\<rparr>"

text \<open>
  The scenario of the specification: the buffer is cleared, three samples come back
  empty, the fourth is a batch of two transitions with the points \<^verbatim>\<open>"a"\<close> and \<^verbatim>\<open>"b"\<close>,
  and the training step answers with the errors \<open>td_a\<close> and \<open>td_b\<close>.
\<close>

definition scenario_arrays :: "int json list" where
  "scenario_arrays =
     [JArr [JNum 1, JNum 2], JArr [JNum 0, JNum 1], JArr [JNum 5, JNum 6],
      JArr [JNum 2, JNum 3], JArr [JBool False, JBool True]]"

definition scenario_batch :: "int json" where
  "scenario_batch =
     JObj [(''trans'', JArr scenario_arrays),
           (''is_weights'', JArr [JNum 1, JNum 1]),
           (''points'', JArr [JStr ''a'', JStr ''b''])]"

definition scenario_world :: "int \<Rightarrow> int \<Rightarrow> (unit, int) world" where
  "scenario_world td_a td_b =
     \<lparr>replay = (\<lambda>k req. Completes (if k = 4 then \<lparr>status_code = 200, resp_json = Some scenario_batch\<rparr>
                                    else empty_sample)),
      sac_train = (\<lambda>model arrays is_weights. Inr (model, 1, [JNum td_a, JNum td_b])),
      eval_dies = (\<lambda>k. False),
      replay_host = ''127.0.0.1'',
      replay_port = ''61000''\<rparr>"

text \<open>The training thread when the fourth sample of the scenario is due.\<close>

definition warm_state :: "(unit, int) lstate" where
  "warm_state = \<lparr>attempts = 4, events = [], t_evaluation = NotStarted, sac = ()\<rparr>"

text \<open>A replay service that answers every request with the batch of the scenario.\<close>

definition busy_world :: "(unit, int) world" where
  "busy_world =
     \<lparr>replay = (\<lambda>k req. Completes \<lparr>status_code = 200, resp_json = Some scenario_batch\<rparr>),
      sac_train = (\<lambda>model arrays is_weights. Inr (model, 1, [JNum 7, JNum 8])),
      eval_dies = (\<lambda>k. False),
      replay_host = ''127.0.0.1'',
      replay_port = ''61000''\<rparr>"

text \<open>The same, with an evaluation thread that ends as soon as it has started.\<close>

definition fragile_world :: "(unit, int) world" where
  "fragile_world = busy_world\<lparr>eval_dies := (\<lambda>k. True)\<rparr>"

text \<open>The events of two turns of the loop in that world.\<close>

definition batch_response :: "int response" where
  "batch_response = \<lparr>status_code = 200, resp_json = Some scenario_batch\<rparr>"

definition busy_events :: "int event list" where
  "busy_events =
     [HttpCompleted (GET ''http://127.0.0.1:61000/clear'') batch_response,
      HttpCompleted (GET ''http://127.0.0.1:61000/sample'') batch_response,
      EvalStarted,
      Trained scenario_arrays (JArr [JNum 1, JNum 1]) [JNum 7, JNum 8],
      HttpCompleted
        (POST ''http://127.0.0.1:61000/update''
           (JObj [(''points'', JArr [JStr ''a'', JStr ''b'']),
                  (''td_errors'', JArr [JNum 7, JNum 8])]))
        batch_response,
      HttpCompleted (GET ''http://127.0.0.1:61000/sample'') batch_response,
      Trained scenario_arrays (JArr [JNum 1, JNum 1]) [JNum 7, JNum 8],
      HttpCompleted
        (POST ''http://127.0.0.1:61000/update''
           (JObj [(''points'', JArr [JStr ''a'', JStr ''b'']),
                  (''td_errors'', JArr [JNum 7, JNum 8])]))
        batch_response]"

section \<open>Properties\<close>

subsection \<open>The retry loop of the replay client\<close>

text \<open>
  If the attempts fail one after the other and the next one completes, the loop ends
  there, having logged and slept once for each failure.
\<close>

lemma request_completes:
  "fails_then_completes w req (attempts st) msgs r \<Longrightarrow>
   request_until_complete w prefix req st = Some (r, after_exchange prefix req msgs r st)"
proof (induction msgs arbitrary: st)
  case Nil
  then show ?case
    by (subst request_until_complete.simps)
       (simp add: fails_then_completes_def after_exchange_def retry_events_def completed_attempt_def)
next
  case (Cons e es)
  let ?st = "failed_attempt prefix req e st"
  from Cons.prems have first: "replay w (attempts st) req = Raises e"
    by (auto simp: fails_then_completes_def)
  from Cons.prems have "fails_then_completes w req (attempts ?st) es r"
    by (fastforce simp: fails_then_completes_def failed_attempt_def)
  then have "request_until_complete w prefix req ?st = Some (r, after_exchange prefix req es r ?st)"
    by (rule Cons.IH)
  moreover have "after_exchange prefix req es r ?st = after_exchange prefix req (e # es) r st"
    by (simp add: after_exchange_def failed_attempt_def retry_events_def)
  ultimately show ?case
    using first by (subst request_until_complete.simps) simp
qed

lemma request_returns_only_completed_aux:
  assumes "request_until_complete w prefix req st = Some y"
  shows "\<exists>msgs. fails_then_completes w req (attempts st) msgs (fst y) \<and>
          snd y = after_exchange prefix req msgs (fst y) st"
  using assms
proof (induct rule: request_until_complete.raw_induct[rotated 1, consumes 1])
  case (1 rec w prefix req st y)
  show ?case
  proof (cases "replay w (attempts st) req")
    case (Raises e)
    let ?st = "failed_attempt prefix req e st"
    from 1(2) Raises have "rec w prefix req ?st = Some y" by simp
    then obtain msgs where
      m: "fails_then_completes w req (attempts ?st) msgs (fst y)"
         "snd y = after_exchange prefix req msgs (fst y) ?st"
      using 1(1) by blast
    from m(1) Raises have "fails_then_completes w req (attempts st) (e # msgs) (fst y)"
      by (auto simp: fails_then_completes_def failed_attempt_def less_Suc_eq_0_disj)
    moreover from m(2) have "snd y = after_exchange prefix req (e # msgs) (fst y) st"
      by (simp add: after_exchange_def failed_attempt_def retry_events_def)
    ultimately show ?thesis by blast
  next
    case (Completes r)
    with 1(2) have "y = (r, completed_attempt req r st)" by simp
    with Completes have "fails_then_completes w req (attempts st) [] (fst y) \<and>
          snd y = after_exchange prefix req [] (fst y) st"
      by (simp add: fails_then_completes_def after_exchange_def retry_events_def completed_attempt_def)
    then show ?thesis by blast
  qed
qed

lemma request_never_completes:
  "\<forall>k \<ge> attempts st. \<exists>e. replay w k req = Raises e \<Longrightarrow>
   request_until_complete w prefix req st = None"
proof (rule ccontr)
  assume a: "\<forall>k \<ge> attempts st. \<exists>e. replay w k req = Raises e"
  assume "request_until_complete w prefix req st \<noteq> None"
  then obtain y where "request_until_complete w prefix req st = Some y" by blast
  from request_returns_only_completed_aux[OF this] obtain msgs where
    "fails_then_completes w req (attempts st) msgs (fst y)" by blast
  then have "replay w (attempts st + length msgs) req = Completes (fst y)"
    by (simp add: fails_then_completes_def)
  with a show False by (metis le_add1 outcome.distinct(1))
qed


lemma get_sampled_data_completes:
  "fails_then_completes w (sample_request w) (attempts st) msgs r \<Longrightarrow>
   get_sampled_data w st =
     Some (decoded r, after_exchange ''exception _get_sampled_trans: '' (sample_request w) msgs r st)"
  by (simp add: get_sampled_data_def request_completes)

lemma get_sampled_data_returns:
  assumes "get_sampled_data w st = Some (res, st')"
  shows "\<exists>msgs r. fails_then_completes w (sample_request w) (attempts st) msgs r \<and> res = decoded r \<and>
           st' = after_exchange ''exception _get_sampled_trans: '' (sample_request w) msgs r st"
proof -
  from assms obtain r where
    r: "request_until_complete w ''exception _get_sampled_trans: '' (sample_request w) st = Some (r, st')"
      "res = decoded r"
    by (auto simp: get_sampled_data_def split: option.splits)
  from request_returns_only_completed_aux[OF r(1)] r(2) show ?thesis by auto
qed

lemma update_td_errors_completes:
  "fails_then_completes w (update_request w ps tds) (attempts st) msgs r \<Longrightarrow>
   update_td_errors w ps tds st =
     Some (after_exchange ''exception _update_td_errors: '' (update_request w ps tds) msgs r st)"
  by (simp add: update_td_errors_def request_completes)

lemma update_td_errors_returns:
  assumes "update_td_errors w ps tds st = Some st'"
  shows "\<exists>msgs r. fails_then_completes w (update_request w ps tds) (attempts st) msgs r \<and>
           st' = after_exchange ''exception _update_td_errors: '' (update_request w ps tds) msgs r st"
proof -
  from assms obtain y where
    "request_until_complete w ''exception _update_td_errors: '' (update_request w ps tds) st = Some y"
    "st' = snd y"
    by (auto simp: update_td_errors_def)
  with request_returns_only_completed_aux show ?thesis by blast
qed

lemma clear_replay_buffer_completes:
  "fails_then_completes w (clear_request w) (attempts st) msgs r \<Longrightarrow>
   clear_replay_buffer w st =
     Some (after_exchange ''_clear_replay_buffer: '' (clear_request w) msgs r st)"
  by (simp add: clear_replay_buffer_def request_completes)

lemma clear_replay_buffer_returns:
  assumes "clear_replay_buffer w st = Some st'"
  shows "\<exists>msgs r. fails_then_completes w (clear_request w) (attempts st) msgs r \<and>
           st' = after_exchange ''_clear_replay_buffer: '' (clear_request w) msgs r st"
proof -
  from assms obtain y where
    "request_until_complete w ''_clear_replay_buffer: '' (clear_request w) st = Some y"
    "st' = snd y"
    by (auto simp: clear_replay_buffer_def)
  with request_returns_only_completed_aux show ?thesis by blast
qed

lemma flaky_fails_then_completes:
  "fails_then_completes (flaky_world r) req 0 [''refused'', ''refused''] r"
  by (simp add: fails_then_completes_def flaky_world_def less_Suc_eq_0_disj nth_Cons')


text \<open>
  C9. In \<^verbatim>\<open>_get_sampled_data\<close> the retry loop guards the HTTP exchange only. When the
  attempts raise \<open>msgs\<close> and the next attempt completes with a response \<open>r\<close>, of any
  status code, the loop ends with that attempt: no further attempt is made. The body is
  decoded after the loop, and when it is not valid JSON (\<open>resp_json r = None\<close>) the
  call raises the decoding error to its caller instead of retrying.
\<close>

theorem sample_decodes_after_loop:
  "fails_then_completes w (sample_request w) (attempts st) msgs r \<Longrightarrow>
   get_sampled_data w st =
     Some (case resp_json r of None \<Rightarrow> Inl JSONDecodeError | Some v \<Rightarrow> Inr v,
           st\<lparr>attempts := attempts st + length msgs + 1,
              events := events st
                @ retry_events ''exception _get_sampled_trans: '' (sample_request w) msgs
                @ [HttpCompleted (sample_request w) r]\<rparr>)"
  by (simp add: get_sampled_data_completes after_exchange_def decoded_def)

theorem sample_decodes_after_loop_witness:
  "fails_then_completes (flaky_world not_json) (sample_request (flaky_world not_json))
     (attempts idle_state) [''refused'', ''refused''] not_json
   \<and> map_option fst (get_sampled_data (flaky_world not_json) idle_state)
       = Some (Inl JSONDecodeError)
   \<and> map_option (attempts \<circ> snd) (get_sampled_data (flaky_world not_json) idle_state) = Some 3"
proof -
  have h: "fails_then_completes (flaky_world not_json) (sample_request (flaky_world not_json))
             (attempts idle_state) [''refused'', ''refused''] not_json"
    by (simp add: idle_state_def flaky_fails_then_completes)
  show ?thesis
    using h sample_decodes_after_loop [OF h] by (simp add: not_json_def idle_state_def)
qed

text \<open>
  C1, as stated, fails for \<^verbatim>\<open>_get_sampled_data\<close>: the first attempt completes, with a
  body that is not JSON, and the call returns an error to its caller.
\<close>

theorem sample_returns_error_counterexample:
  "replay (steady_world html_page) (attempts idle_state) (sample_request (steady_world html_page))
     = Completes html_page
   \<and> map_option fst (get_sampled_data (steady_world html_page) idle_state)
       = Some (Inl JSONDecodeError)"
  by (simp add: get_sampled_data_def request_until_complete.simps steady_world_def
        html_page_def decoded_def)

text \<open>
  C1, amended. For each of the three calls of the replay client: when the HTTP request
  raises on the attempts \<open>msgs\<close> and the next attempt completes with \<open>r\<close>, the call
  logs each error, sleeps one second after each, retries, and returns after the
  completed attempt (\<open>after_exchange\<close>). \<^verbatim>\<open>_update_td_errors\<close> and
  \<^verbatim>\<open>_clear_replay_buffer\<close> return no error; \<^verbatim>\<open>_get_sampled_data\<close> returns the decoded
  body, or raises the decoding error when the body of the completed response is not
  valid JSON, and never a transport error. Each call returns only after an attempt whose
  HTTP exchange completed.
\<close>

theorem replay_client_retries_until_completed:
  "(fails_then_completes w (sample_request w) (attempts st) msgs r \<longrightarrow>
      get_sampled_data w st =
        Some (case resp_json r of None \<Rightarrow> Inl JSONDecodeError | Some v \<Rightarrow> Inr v,
              after_exchange ''exception _get_sampled_trans: '' (sample_request w) msgs r st))
   \<and> (fails_then_completes w (update_request w ps tds) (attempts st) msgs r \<longrightarrow>
      update_td_errors w ps tds st =
        Some (after_exchange ''exception _update_td_errors: '' (update_request w ps tds) msgs r st))
   \<and> (fails_then_completes w (clear_request w) (attempts st) msgs r \<longrightarrow>
      clear_replay_buffer w st =
        Some (after_exchange ''_clear_replay_buffer: '' (clear_request w) msgs r st))
   \<and> (\<forall>res st'. get_sampled_data w st = Some (res, st') \<longrightarrow>
        (\<exists>msgs r. fails_then_completes w (sample_request w) (attempts st) msgs r \<and>
           res = (case resp_json r of None \<Rightarrow> Inl JSONDecodeError | Some v \<Rightarrow> Inr v) \<and>
           st' = after_exchange ''exception _get_sampled_trans: '' (sample_request w) msgs r st))
   \<and> (\<forall>st'. update_td_errors w ps tds st = Some st' \<longrightarrow>
        (\<exists>msgs r. fails_then_completes w (update_request w ps tds) (attempts st) msgs r \<and>
           st' = after_exchange ''exception _update_td_errors: '' (update_request w ps tds) msgs r st))
   \<and> (\<forall>st'. clear_replay_buffer w st = Some st' \<longrightarrow>
        (\<exists>msgs r. fails_then_completes w (clear_request w) (attempts st) msgs r \<and>
           st' = after_exchange ''_clear_replay_buffer: '' (clear_request w) msgs r st))"
proof (intro conjI impI allI)
  assume "fails_then_completes w (sample_request w) (attempts st) msgs r"
  then show "get_sampled_data w st =
        Some (case resp_json r of None \<Rightarrow> Inl JSONDecodeError | Some v \<Rightarrow> Inr v,
              after_exchange ''exception _get_sampled_trans: '' (sample_request w) msgs r st)"
    by (simp add: get_sampled_data_completes decoded_def)
next
  assume "fails_then_completes w (update_request w ps tds) (attempts st) msgs r"
  then show "update_td_errors w ps tds st =
        Some (after_exchange ''exception _update_td_errors: '' (update_request w ps tds) msgs r st)"
    by (rule update_td_errors_completes)
next
  assume "fails_then_completes w (clear_request w) (attempts st) msgs r"
  then show "clear_replay_buffer w st =
        Some (after_exchange ''_clear_replay_buffer: '' (clear_request w) msgs r st)"
    by (rule clear_replay_buffer_completes)
next
  fix res st'
  assume "get_sampled_data w st = Some (res, st')"
  from get_sampled_data_returns[OF this]
  show "\<exists>msgs r. fails_then_completes w (sample_request w) (attempts st) msgs r \<and>
           res = (case resp_json r of None \<Rightarrow> Inl JSONDecodeError | Some v \<Rightarrow> Inr v) \<and>
           st' = after_exchange ''exception _get_sampled_trans: '' (sample_request w) msgs r st"
    by (simp add: decoded_def)
next
  fix st'
  assume "update_td_errors w ps tds st = Some st'"
  then show "\<exists>msgs r. fails_then_completes w (update_request w ps tds) (attempts st) msgs r \<and>
           st' = after_exchange ''exception _update_td_errors: '' (update_request w ps tds) msgs r st"
    by (rule update_td_errors_returns)
next
  fix st'
  assume "clear_replay_buffer w st = Some st'"
  then show "\<exists>msgs r. fails_then_completes w (clear_request w) (attempts st) msgs r \<and>
           st' = after_exchange ''_clear_replay_buffer: '' (clear_request w) msgs r st"
    by (rule clear_replay_buffer_returns)
qed

theorem replay_client_retries_until_completed_witness:
  "fails_then_completes (flaky_world empty_sample) (sample_request (flaky_world empty_sample))
     (attempts idle_state) [''refused'', ''refused''] empty_sample
   \<and> fails_then_completes (flaky_world empty_sample)
       (update_request (flaky_world empty_sample) (JArr [JStr ''a'']) (JArr [JNum 2]))
       (attempts idle_state) [''refused'', ''refused''] empty_sample
   \<and> fails_then_completes (flaky_world empty_sample) (clear_request (flaky_world empty_sample))
       (attempts idle_state) [''refused'', ''refused''] empty_sample
   \<and> get_sampled_data (flaky_world empty_sample) idle_state =
       Some (Inr (JObj []),
             after_exchange ''exception _get_sampled_trans: ''
               (sample_request (flaky_world empty_sample)) [''refused'', ''refused'']
               empty_sample idle_state)
   \<and> update_td_errors (flaky_world empty_sample) (JArr [JStr ''a'']) (JArr [JNum 2]) idle_state =
       Some (after_exchange ''exception _update_td_errors: ''
               (update_request (flaky_world empty_sample) (JArr [JStr ''a'']) (JArr [JNum 2]))
               [''refused'', ''refused''] empty_sample idle_state)
   \<and> clear_replay_buffer (flaky_world empty_sample) idle_state =
       Some (after_exchange ''_clear_replay_buffer: ''
               (clear_request (flaky_world empty_sample)) [''refused'', ''refused'']
               empty_sample idle_state)
   \<and> events (after_exchange ''_clear_replay_buffer: ''
               (clear_request (flaky_world empty_sample)) [''refused'', ''refused'']
               empty_sample idle_state) =
       [HttpRaised (GET ''http://127.0.0.1:61000/clear'') ''refused'',
        LogError ''_clear_replay_buffer: refused'', Sleep 1,
        HttpRaised (GET ''http://127.0.0.1:61000/clear'') ''refused'',
        LogError ''_clear_replay_buffer: refused'', Sleep 1,
        HttpCompleted (GET ''http://127.0.0.1:61000/clear'') empty_sample]"
proof -
  let ?w = "flaky_world empty_sample"
  have h: "fails_then_completes ?w req (attempts idle_state) [''refused'', ''refused''] empty_sample"
    for req
    by (simp add: idle_state_def flaky_fails_then_completes)
  note t = replay_client_retries_until_completed
    [of ?w idle_state "[''refused'', ''refused'']" empty_sample "JArr [JStr ''a'']" "JArr [JNum 2]"]
  show ?thesis
    using h t
    by (simp add: empty_sample_def after_exchange_def retry_events_def idle_state_def
          clear_request_def replay_url_def flaky_world_def)
qed

subsection \<open>The port of the parameter server\<close>

text \<open>The second loop over the options never writes the port of the parameter server.\<close>

lemma override_keeps_learner_port:
  "override env opt arg l = Inr l' \<Longrightarrow> self_learner_port l' = self_learner_port l"
  by (auto simp: override_def split: if_splits option.splits)

lemma overrides_keep_learner_port:
  "overrides env opts l = Inr l' \<Longrightarrow> self_learner_port l' = self_learner_port l"
proof (induction opts arbitrary: l)
  case Nil
  then show ?case by simp
next
  case (Cons p opts)
  obtain opt arg where p: "p = (opt, arg)" by (cases p)
  from Cons.prems p obtain l1 where
    l1: "override env opt arg l = Inr l1" "overrides env opts l1 = Inr l'"
    by (auto split: sum.splits)
  from Cons.IH[OF l1(2)] override_keeps_learner_port[OF l1(1)] show ?case by simp
qed

text \<open>
  C8. The command line \<^verbatim>\<open>--learner_port=7000\<close> reaches the code as the option
  \<^verbatim>\<open>('--learner_port', '7000')\<close>. The claim wants the parameter server on port 7000;
  the code starts it on the default 61001, for every file system, clock and platform.
\<close>

theorem learner_port_override_has_no_effect:
  "map_sum id learner_server_port (init_config env [(''--learner_port'', ''7000'')])
     = Inr (YInt 61001)"
  by (simp add: init_config_def override_def new_learner_def learner_server_port_def)

subsection \<open>The registry of the websocket hub\<close>

text \<open>The registry never holds a connection twice.\<close>

lemma set_set_add: "set (set_add c cs) = insert c (set cs)"
  by (auto simp: set_add_def)

lemma distinct_set_add: "distinct cs \<Longrightarrow> distinct (set_add c cs)"
  by (simp add: set_add_def)

lemma websocket_clients_print [simp]:
  "websocket_clients (print_websocket_clients h) = websocket_clients h"
  by (simp add: print_websocket_clients_def)

lemma actions_print [simp]:
  "actions (print_websocket_clients h) = actions h @ [LogInfo (log_str (websocket_clients h))]"
  by (simp add: print_websocket_clients_def)

lemma distinct_connection_closed:
  "distinct (websocket_clients h) \<Longrightarrow> distinct (websocket_clients (connection_closed c h))"
  by (simp add: connection_closed_def distinct_removeAll)

lemma distinct_websocket_open:
  "distinct (websocket_clients h) \<Longrightarrow> distinct (websocket_clients (websocket_open ev h))"
  by (cases ev) (simp_all add: Let_def distinct_set_add distinct_connection_closed)

lemma distinct_fold_websocket_open:
  "distinct (websocket_clients h) \<Longrightarrow> distinct (websocket_clients (fold websocket_open evs h))"
  by (induction evs arbitrary: h) (simp_all add: distinct_websocket_open)

lemma distinct_hub_run: "distinct (websocket_clients (hub_run evs new_hub))"
  by (simp add: hub_run_def distinct_fold_websocket_open new_hub_def)

text \<open>
  C7. When the handler of a connection \<open>c\<close> receives \<^verbatim>\<open>"actor"\<close>, the hub adds \<open>c\<close> to
  the registry, logs the registry as it is then (the number of members, then each
  member's remote address) and sends \<^verbatim>\<open>"reset"\<close> to \<open>c\<close>, in this order. These are
  the only actions when the reply goes out, and the first two new actions when the
  reply meets a closed connection. Any other message leaves the hub as it was: nothing
  is added, logged or sent.
\<close>

theorem actor_handshake:
  "websocket_open (Message c ''actor'' True) h =
     h\<lparr>websocket_clients := set_add c (websocket_clients h),
       actions := actions h @ [LogInfo (log_str (set_add c (websocket_clients h))), Send c ''reset'']\<rparr>
   \<and> set (set_add c (websocket_clients h)) = insert c (set (websocket_clients h))
   \<and> log_str (set_add c (websocket_clients h)) =
       str_nat (length (set_add c (websocket_clients h))) @ '' active actors'' @
       concat (map (\<lambda>(i, client). [CHR 0x0A] @ ''['' @ str_nat (i + 1) @ '']. '' @
                      remote_host client @ '' : '' @ str_nat (remote_port client))
                 (enumerate 0 (set_add c (websocket_clients h))))
   \<and> take (length (actions h) + 2) (actions (websocket_open (Message c ''actor'' False) h)) =
       actions h @ [LogInfo (log_str (set_add c (websocket_clients h))), Send c ''reset'']
   \<and> (m \<noteq> ''actor'' \<longrightarrow> websocket_open (Message c m sent) h = h)"
  by (simp add: Let_def set_set_add log_str_def client_line_def connection_closed_def)

theorem actor_handshake_witness:
  "''hello'' \<noteq> ''actor''
   \<and> websocket_open (Message actor2 ''hello'' True) (websocket_open (Message actor1 ''actor'' True) new_hub)
       = websocket_open (Message actor1 ''actor'' True) new_hub
   \<and> websocket_open (Message actor1 ''actor'' True) new_hub =
       \<lparr>websocket_clients = [actor1],
        actions = [LogInfo (''1 active actors'' @ [CHR 0x0A] @ ''[1]. 10.0.0.1 : 5001''),
                   Send actor1 ''reset'']\<rparr>"
proof -
  have h: "''hello'' \<noteq> ''actor''" by simp
  from actor_handshake [of actor1 new_hub "''hello''" True]
  have a: "websocket_open (Message actor1 ''actor'' True) new_hub =
      new_hub\<lparr>websocket_clients := set_add actor1 (websocket_clients new_hub),
        actions := actions new_hub @
          [LogInfo (log_str (set_add actor1 (websocket_clients new_hub))), Send actor1 ''reset'']\<rparr>"
    by blast
  have l: "log_str [actor1] = ''1 active actors'' @ [CHR 0x0A] @ ''[1]. 10.0.0.1 : 5001''"
    by (simp add: log_str_def client_line_def actor1_def enumerate_eq_zip str_nat.simps)
  from actor_handshake
    [of actor2 "websocket_open (Message actor1 ''actor'' True) new_hub" "''hello''" True] h
  have b: "websocket_open (Message actor2 ''hello'' True)
             (websocket_open (Message actor1 ''actor'' True) new_hub)
           = websocket_open (Message actor1 ''actor'' True) new_hub"
    by blast
  show ?thesis
    using h a b l by (simp add: new_hub_def set_add_def)
qed

lemma count_list_distinct:
  "distinct xs \<Longrightarrow> x \<in> set xs \<Longrightarrow> count_list xs x = 1"
  by (induction xs) (auto simp: count_list_0_iff)

text \<open>
  C10, as stated, fails when the reply to the repeated \<^verbatim>\<open>"actor"\<close> meets a closed
  connection: \<^verbatim>\<open>send('reset')\<close> is inside the \<^verbatim>\<open>try\<close>, so the handler of
  \<^verbatim>\<open>ConnectionClosed\<close> removes the connection and logs the registry a second time.
\<close>

theorem repeated_actor_reply_fails_counterexample:
  "actor1 \<in> set (websocket_clients (hub_run [Message actor1 ''actor'' True] new_hub))
   \<and> websocket_clients (hub_run [Message actor1 ''actor'' True] new_hub) = [actor1]
   \<and> websocket_clients
       (websocket_open (Message actor1 ''actor'' False)
          (hub_run [Message actor1 ''actor'' True] new_hub)) = []
   \<and> actions
       (websocket_open (Message actor1 ''actor'' False)
          (hub_run [Message actor1 ''actor'' True] new_hub))
     = actions (hub_run [Message actor1 ''actor'' True] new_hub)
       @ [LogInfo (''1 active actors'' @ [CHR 0x0A] @ ''[1]. 10.0.0.1 : 5001''),
          Send actor1 ''reset'',
          LogInfo ''0 active actors'']"
  by (simp add: hub_run_def new_hub_def set_add_def connection_closed_def log_str_def
        client_line_def actor1_def enumerate_eq_zip str_nat.simps)

text \<open>
  C10, amended. In every state that the hub reaches, \<^verbatim>\<open>"actor"\<close> from a connection
  that is registered already adds nothing to the registry (\<open>set_add\<close> returns it as it
  was). When the reply goes out, the registry is left as it was, with the connection in
  it exactly once, and the message adds one line to the log and one \<^verbatim>\<open>"reset"\<close> to
  that connection. When the reply meets a closed connection, the same line and the same
  \<^verbatim>\<open>"reset"\<close> are followed by the removal of the connection from the registry and by a
  second line for the registry without it.
\<close>

theorem repeated_actor_is_idempotent:
  "c \<in> set (websocket_clients (hub_run evs new_hub)) \<Longrightarrow>
   websocket_clients (websocket_open (Message c ''actor'' True) (hub_run evs new_hub))
     = websocket_clients (hub_run evs new_hub)
   \<and> count_list (websocket_clients (websocket_open (Message c ''actor'' True) (hub_run evs new_hub))) c = 1
   \<and> actions (websocket_open (Message c ''actor'' True) (hub_run evs new_hub))
       = actions (hub_run evs new_hub)
         @ [LogInfo (log_str (websocket_clients (hub_run evs new_hub))), Send c ''reset'']
   \<and> set_add c (websocket_clients (hub_run evs new_hub)) = websocket_clients (hub_run evs new_hub)
   \<and> websocket_clients (websocket_open (Message c ''actor'' False) (hub_run evs new_hub))
       = removeAll c (websocket_clients (hub_run evs new_hub))
   \<and> c \<notin> set (websocket_clients (websocket_open (Message c ''actor'' False) (hub_run evs new_hub)))
   \<and> length (websocket_clients (websocket_open (Message c ''actor'' False) (hub_run evs new_hub)))
       = length (websocket_clients (hub_run evs new_hub)) - 1
   \<and> actions (websocket_open (Message c ''actor'' False) (hub_run evs new_hub))
       = actions (hub_run evs new_hub)
         @ [LogInfo (log_str (websocket_clients (hub_run evs new_hub))), Send c ''reset'',
            LogInfo (log_str (removeAll c (websocket_clients (hub_run evs new_hub))))]"
  using distinct_hub_run [of evs]
  by (simp add: Let_def set_add_def count_list_distinct connection_closed_def
        distinct_remove1_removeAll [symmetric] length_remove1)

theorem repeated_actor_is_idempotent_witness:
  "actor1 \<in> set (websocket_clients (hub_run [Message actor1 ''actor'' True] new_hub))
   \<and> websocket_clients (hub_run [Message actor1 ''actor'' True, Message actor1 ''actor'' True] new_hub)
       = [actor1]
   \<and> actions (hub_run [Message actor1 ''actor'' True, Message actor1 ''actor'' True] new_hub)
       = [LogInfo (''1 active actors'' @ [CHR 0x0A] @ ''[1]. 10.0.0.1 : 5001''), Send actor1 ''reset'',
          LogInfo (''1 active actors'' @ [CHR 0x0A] @ ''[1]. 10.0.0.1 : 5001''), Send actor1 ''reset'']
   \<and> websocket_clients (hub_run [Message actor1 ''actor'' True, Message actor1 ''actor'' False] new_hub)
       = []
   \<and> actions (hub_run [Message actor1 ''actor'' True, Message actor1 ''actor'' False] new_hub)
       = [LogInfo (''1 active actors'' @ [CHR 0x0A] @ ''[1]. 10.0.0.1 : 5001''), Send actor1 ''reset'',
          LogInfo (''1 active actors'' @ [CHR 0x0A] @ ''[1]. 10.0.0.1 : 5001''), Send actor1 ''reset'',
          LogInfo ''0 active actors'']"
proof -
  have l: "log_str [actor1] = ''1 active actors'' @ [CHR 0x0A] @ ''[1]. 10.0.0.1 : 5001''"
    "log_str [] = ''0 active actors''"
    by (simp_all add: log_str_def client_line_def actor1_def enumerate_eq_zip str_nat.simps)
  have r: "hub_run [Message actor1 ''actor'' True] new_hub =
        \<lparr>websocket_clients = [actor1],
         actions = [LogInfo (log_str [actor1]), Send actor1 ''reset'']\<rparr>"
    by (simp add: hub_run_def new_hub_def set_add_def print_websocket_clients_def)
  have h: "actor1 \<in> set (websocket_clients (hub_run [Message actor1 ''actor'' True] new_hub))"
    by (simp add: r)
  have s: "hub_run [Message actor1 ''actor'' True, Message actor1 ''actor'' sent] new_hub
        = websocket_open (Message actor1 ''actor'' sent) (hub_run [Message actor1 ''actor'' True] new_hub)"
    for sent
    by (simp add: hub_run_def)
  show ?thesis
    using h repeated_actor_is_idempotent [OF h] l by (simp only: s r) simp
qed

text \<open>
  C4. Two actors register (\<open>K = 2\<close>) and the first closes its connection in an orderly
  way (\<open>M = 1\<close>). The claim wants a registry of one connection and a broadcast to that
  one. In the code the iteration of the first handler just ends, nothing is removed and
  nothing is logged: the registry keeps both connections and \<^verbatim>\<open>send_to_all\<close> sends to
  both.
\<close>

theorem orderly_close_stays_registered:
  "websocket_clients
     (hub_run [Message actor1 ''actor'' True, Message actor2 ''actor'' True, IterationEnds actor1] new_hub)
     = [actor1, actor2]
   \<and> actions
       (send_to_all ''reload''
         (hub_run [Message actor1 ''actor'' True, Message actor2 ''actor'' True, IterationEnds actor1] new_hub))
     = [LogInfo (''1 active actors'' @ [CHR 0x0A] @ ''[1]. 10.0.0.1 : 5001''),
        Send actor1 ''reset'',
        LogInfo (''2 active actors'' @ [CHR 0x0A] @ ''[1]. 10.0.0.1 : 5001''
                   @ [CHR 0x0A] @ ''[2]. 10.0.0.2 : 40022''),
        Send actor2 ''reset'',
        Send actor1 ''reload'', Send actor2 ''reload'']"
  by (simp add: hub_run_def new_hub_def set_add_def send_to_all_def log_str_def client_line_def
        actor1_def actor2_def enumerate_eq_zip str_nat.simps)

text \<open>
  When the same connection ends with \<^verbatim>\<open>ConnectionClosed\<close> instead, it is removed, the
  registry is logged again and the broadcast goes to the other actor only.
\<close>

lemma abnormal_close_is_removed:
  "websocket_clients
     (hub_run [Message actor1 ''actor'' True, Message actor2 ''actor'' True, ConnectionClosed actor1] new_hub)
     = [actor2]
   \<and> actions
       (send_to_all ''reload''
         (hub_run [Message actor1 ''actor'' True, Message actor2 ''actor'' True, ConnectionClosed actor1] new_hub))
     = [LogInfo (''1 active actors'' @ [CHR 0x0A] @ ''[1]. 10.0.0.1 : 5001''),
        Send actor1 ''reset'',
        LogInfo (''2 active actors'' @ [CHR 0x0A] @ ''[1]. 10.0.0.1 : 5001''
                   @ [CHR 0x0A] @ ''[2]. 10.0.0.2 : 40022''),
        Send actor2 ''reset'',
        LogInfo (''1 active actors'' @ [CHR 0x0A] @ ''[1]. 10.0.0.2 : 40022''),
        Send actor2 ''reload'']"
  by (simp add: hub_run_def new_hub_def set_add_def send_to_all_def log_str_def client_line_def
        connection_closed_def actor1_def actor2_def enumerate_eq_zip str_nat.simps)

text \<open>
  For connections that all end with \<^verbatim>\<open>ConnectionClosed\<close> the count is right: after the
  handshakes of \<open>K\<close> connections and the abnormal end of \<open>M\<close> of them the registry
  holds the other \<open>K - M\<close>, and a broadcast goes to exactly these.
\<close>

lemma registry_after_handshakes:
  "distinct cs \<Longrightarrow> set cs \<inter> set (websocket_clients h) = {} \<Longrightarrow>
   websocket_clients (fold websocket_open (map (\<lambda>c. Message c ''actor'' True) cs) h)
     = websocket_clients h @ cs"
proof (induction cs arbitrary: h)
  case Nil
  then show ?case by simp
next
  case (Cons c cs)
  let ?h = "websocket_open (Message c ''actor'' True) h"
  from Cons.prems have reg: "websocket_clients ?h = websocket_clients h @ [c]"
    by (simp add: Let_def set_add_def)
  with Cons.prems have "set cs \<inter> set (websocket_clients ?h) = {}"
    by auto
  with Cons.prems have "websocket_clients (fold websocket_open (map (\<lambda>c. Message c ''actor'' True) cs) ?h)
     = websocket_clients ?h @ cs"
    by (intro Cons.IH) simp_all
  with reg show ?case by simp
qed

lemma registry_after_closes:
  "websocket_clients (fold websocket_open (map ConnectionClosed ds) h)
     = filter (\<lambda>c. c \<notin> set ds) (websocket_clients h)"
proof (induction ds arbitrary: h)
  case Nil
  then show ?case by simp
next
  case (Cons d ds)
  have keep: "filter (\<lambda>c. c \<noteq> d) xs = xs" if "d \<notin> set xs" for xs :: "conn list"
    using that by (induction xs) auto
  have "websocket_clients (connection_closed d h) = filter (\<lambda>c. c \<noteq> d) (websocket_clients h)"
    by (auto simp: connection_closed_def removeAll_filter_not_eq keep intro: filter_cong)
  with Cons.IH [of "connection_closed d h"] show ?case
    by (simp add: conj_commute)
qed

lemma abnormal_closes_leave_the_rest:
  assumes "distinct cs" and "distinct ds" and "set ds \<subseteq> set cs"
  defines "h \<equiv> hub_run (map (\<lambda>c. Message c ''actor'' True) cs @ map ConnectionClosed ds) new_hub"
  shows "websocket_clients h = filter (\<lambda>c. c \<notin> set ds) cs"
    and "length (websocket_clients h) = length cs - length ds"
    and "actions (send_to_all message h) = actions h @ map (\<lambda>c. Send c message) (filter (\<lambda>c. c \<notin> set ds) cs)"
proof -
  from assms(1) show r: "websocket_clients h = filter (\<lambda>c. c \<notin> set ds) cs"
    by (simp add: h_def hub_run_def registry_after_closes registry_after_handshakes new_hub_def)
  have "length (filter (\<lambda>c. c \<notin> set ds) cs) = card (set cs - set ds)"
    using assms(1) by (simp add: distinct_length_filter Diff_eq Int_commute Collect_neg_eq)
  also have "\<dots> = card (set cs) - card (set ds)"
    using assms(3) by (simp add: card_Diff_subset)
  also have "\<dots> = length cs - length ds"
    using assms(1,2) by (simp add: distinct_card)
  finally show "length (websocket_clients h) = length cs - length ds"
    by (simp add: r)
  show "actions (send_to_all message h) = actions h @ map (\<lambda>c. Send c message) (filter (\<lambda>c. c \<notin> set ds) cs)"
    by (simp add: send_to_all_def r)
qed

subsection \<open>The training loop\<close>

text \<open>An attempt that completes at once ends the call with one exchange.\<close>

lemma get_sampled_data_at_once:
  "replay w (attempts st) (sample_request w) = Completes r \<Longrightarrow>
   get_sampled_data w st = Some (decoded r, completed_attempt (sample_request w) r st)"
  by (simp add: get_sampled_data_def request_until_complete.simps)

lemma update_td_errors_at_once:
  "replay w (attempts st) (update_request w ps tds) = Completes r \<Longrightarrow>
   update_td_errors w ps tds st = Some (completed_attempt (update_request w ps tds) r st)"
  by (simp add: update_td_errors_def request_until_complete.simps)

lemma clear_replay_buffer_at_once:
  "replay w (attempts st) (clear_request w) = Completes r \<Longrightarrow>
   clear_replay_buffer w st = Some (completed_attempt (clear_request w) r st)"
  by (simp add: clear_replay_buffer_def request_until_complete.simps)

text \<open>The scenario of the specification, turn by turn.\<close>

lemma scenario_run:
  "run_training_client 4 (scenario_world td_a td_b) idle_state =
     Some (None,
       \<lparr>attempts = 6,
        events =
          [HttpCompleted (GET ''http://127.0.0.1:61000/clear'') empty_sample,
           HttpCompleted (GET ''http://127.0.0.1:61000/sample'') empty_sample,
           HttpCompleted (GET ''http://127.0.0.1:61000/sample'') empty_sample,
           HttpCompleted (GET ''http://127.0.0.1:61000/sample'') empty_sample,
           HttpCompleted (GET ''http://127.0.0.1:61000/sample'')
             \<lparr>status_code = 200, resp_json = Some scenario_batch\<rparr>,
           EvalStarted,
           Trained scenario_arrays (JArr [JNum 1, JNum 1]) [JNum td_a, JNum td_b],
           HttpCompleted
             (POST ''http://127.0.0.1:61000/update''
                (JObj [(''points'', JArr [JStr ''a'', JStr ''b'']),
                       (''td_errors'', JArr [JNum td_a, JNum td_b])]))
             empty_sample],
        t_evaluation = Alive,
        sac = ()\<rparr>)"
proof -
  let ?w = "scenario_world td_a td_b"
  have r: "replay ?w k req = Completes (if k = 4 then \<lparr>status_code = 200, resp_json = Some scenario_batch\<rparr> else empty_sample)" for k req
    by (simp add: scenario_world_def)
  have u [simp]: "replay_url ?w p = ''http://127.0.0.1:61000'' @ p" for p
    by (simp add: replay_url_def scenario_world_def)
  have t [simp]: "sac_train ?w m a i = Inr (m, 1, [JNum td_a, JNum td_b])" for m a i
    by (simp add: scenario_world_def)
  have d [simp]: "eval_dies ?w k = False" for k
    by (simp add: scenario_world_def)
  show ?thesis
    by (simp add: run_training_client_def numeral_eq_Suc training_iteration_def
          clear_replay_buffer_at_once get_sampled_data_at_once update_td_errors_at_once r
          completed_attempt_def idle_state_def decoded_def empty_sample_def
          start_evaluation_def is_alive_def train_on_batch_def scenario_batch_def
          scenario_arrays_def sample_request_def clear_request_def update_request_def)
qed


text \<open>What an exchange leaves in the state, and what kind of events a retry leaves.\<close>

lemma after_exchange_simps [simp]:
  "attempts (after_exchange p req msgs r st) = attempts st + length msgs + 1"
  "events (after_exchange p req msgs r st) = events st @ retry_events p req msgs @ [HttpCompleted req r]"
  "t_evaluation (after_exchange p req msgs r st) = t_evaluation st"
  "sac (after_exchange p req msgs r st) = sac st"
  by (simp_all add: after_exchange_def)

lemma retry_events_plain:
  "e \<in> set (retry_events p req msgs) \<Longrightarrow>
   (\<exists>m. e = HttpRaised req m) \<or> (\<exists>m. e = LogError m) \<or> e = Sleep 1"
  by (auto simp: retry_events_def)

lemma retry_events_quiet: "e \<in> set (retry_events p req msgs) \<Longrightarrow> quiet w e"
  by (auto simp: quiet_def dest!: retry_events_plain)

lemma retry_events_get_no_post:
  "e \<in> set (retry_events p (GET url) msgs) \<Longrightarrow> \<not> is_post e \<and> \<not> is_trained e \<and> \<not> is_update w e"
  by (auto dest!: retry_events_plain)

lemma retry_events_no_update:
  "e \<in> set (retry_events p req msgs) \<Longrightarrow> \<not> is_update w e"
  by (auto dest!: retry_events_plain)

lemma filter_is_update_retry_events [simp]:
  "filter (is_update w) (retry_events p req msgs) = []"
  by (auto simp: filter_empty_conv dest: retry_events_no_update)

text \<open>The look at the evaluation thread starts it, leaves it running, or raises.\<close>

lemma start_evaluation_Inr:
  "start_evaluation w st1 = Inr st2 \<Longrightarrow>
     (t_evaluation st1 = NotStarted \<and> st2 = st1\<lparr>events := events st1 @ [EvalStarted], t_evaluation := Alive\<rparr>)
   \<or> (t_evaluation st1 = Alive \<and> st2 = st1)"
  by (auto simp: start_evaluation_def is_alive_def split: thread_state.splits if_splits)

lemma start_evaluation_Inl:
  "start_evaluation w st1 = Inl e \<Longrightarrow> t_evaluation st1 \<noteq> NotStarted"
  by (auto simp: start_evaluation_def is_alive_def split: thread_state.splits if_splits)

text \<open>
  C3. When \<^verbatim>\<open>sample()\<close> returns an empty (falsy) result, the turn of the loop ends in
  the state that the sample call left: no training step, no priority update, no sleep
  of its own, and the next turn starts with the next call of \<^verbatim>\<open>sample()\<close>. In the
  scenario (three empty samples, then a batch of two transitions with the points
  \<^verbatim>\<open>"a"\<close> and \<^verbatim>\<open>"b"\<close>) four turns of the loop make four sample requests, one training
  step and one update with \<^verbatim>\<open>["a", "b"]\<close> and \<^verbatim>\<open>[td_a, td_b]\<close>.
\<close>

theorem empty_sample_is_skipped:
  "(fails_then_completes w (sample_request w) (attempts st) msgs r \<and>
      resp_json r = Some data \<and> \<not> truthy data \<longrightarrow>
      training_iteration w st =
        Some (None, after_exchange ''exception _get_sampled_trans: '' (sample_request w) msgs r st)
      \<and> training_loop (Suc n) w st =
          training_loop n w
            (after_exchange ''exception _get_sampled_trans: '' (sample_request w) msgs r st))
   \<and> run_training_client 4 (scenario_world td_a td_b) idle_state =
     Some (None,
       \<lparr>attempts = 6,
        events =
          [HttpCompleted (GET ''http://127.0.0.1:61000/clear'') empty_sample,
           HttpCompleted (GET ''http://127.0.0.1:61000/sample'') empty_sample,
           HttpCompleted (GET ''http://127.0.0.1:61000/sample'') empty_sample,
           HttpCompleted (GET ''http://127.0.0.1:61000/sample'') empty_sample,
           HttpCompleted (GET ''http://127.0.0.1:61000/sample'')
             \<lparr>status_code = 200, resp_json = Some scenario_batch\<rparr>,
           EvalStarted,
           Trained scenario_arrays (JArr [JNum 1, JNum 1]) [JNum td_a, JNum td_b],
           HttpCompleted
             (POST ''http://127.0.0.1:61000/update''
                (JObj [(''points'', JArr [JStr ''a'', JStr ''b'']),
                       (''td_errors'', JArr [JNum td_a, JNum td_b])]))
             empty_sample],
        t_evaluation = Alive,
        sac = ()\<rparr>)"
proof (intro conjI impI)
  assume a: "fails_then_completes w (sample_request w) (attempts st) msgs r \<and>
      resp_json r = Some data \<and> \<not> truthy data"
  then have f: "fails_then_completes w (sample_request w) (attempts st) msgs r"
    and d: "decoded r = Inr data" "\<not> truthy data"
    by (simp_all add: decoded_def)
  show it: "training_iteration w st =
        Some (None, after_exchange ''exception _get_sampled_trans: '' (sample_request w) msgs r st)"
    by (simp add: training_iteration_def get_sampled_data_completes [OF f] d)
  then show "training_loop (Suc n) w st =
          training_loop n w
            (after_exchange ''exception _get_sampled_trans: '' (sample_request w) msgs r st)"
    by simp
next
  show "run_training_client 4 (scenario_world td_a td_b) idle_state =
     Some (None,
       \<lparr>attempts = 6,
        events =
          [HttpCompleted (GET ''http://127.0.0.1:61000/clear'') empty_sample,
           HttpCompleted (GET ''http://127.0.0.1:61000/sample'') empty_sample,
           HttpCompleted (GET ''http://127.0.0.1:61000/sample'') empty_sample,
           HttpCompleted (GET ''http://127.0.0.1:61000/sample'') empty_sample,
           HttpCompleted (GET ''http://127.0.0.1:61000/sample'')
             \<lparr>status_code = 200, resp_json = Some scenario_batch\<rparr>,
           EvalStarted,
           Trained scenario_arrays (JArr [JNum 1, JNum 1]) [JNum td_a, JNum td_b],
           HttpCompleted
             (POST ''http://127.0.0.1:61000/update''
                (JObj [(''points'', JArr [JStr ''a'', JStr ''b'']),
                       (''td_errors'', JArr [JNum td_a, JNum td_b])]))
             empty_sample],
        t_evaluation = Alive,
        sac = ()\<rparr>)"
    by (rule scenario_run)
qed

theorem empty_sample_is_skipped_witness:
  "fails_then_completes (scenario_world 3 4) (sample_request (scenario_world 3 4))
     (attempts idle_state) [] empty_sample
   \<and> resp_json empty_sample = Some (JObj []) \<and> \<not> truthy (JObj [] :: int json)
   \<and> training_iteration (scenario_world 3 4) idle_state =
       Some (None,
         \<lparr>attempts = 1,
          events = [HttpCompleted (GET ''http://127.0.0.1:61000/sample'') empty_sample],
          t_evaluation = NotStarted, sac = ()\<rparr>)"
proof -
  have h: "fails_then_completes (scenario_world 3 4) (sample_request (scenario_world 3 4))
     (attempts idle_state) [] empty_sample
   \<and> resp_json empty_sample = Some (JObj []) \<and> \<not> truthy (JObj [] :: int json)"
    by (simp add: fails_then_completes_def scenario_world_def idle_state_def empty_sample_def)
  from empty_sample_is_skipped [of "scenario_world 3 4" idle_state "[]" empty_sample "JObj []" 0 3 4] h
  have "training_iteration (scenario_world 3 4) idle_state =
        Some (None, after_exchange ''exception _get_sampled_trans: ''
                      (sample_request (scenario_world 3 4)) [] empty_sample idle_state)"
    by blast
  then show ?thesis
    using h by (simp add: after_exchange_def retry_events_def idle_state_def sample_request_def
                  replay_url_def scenario_world_def)
qed

text \<open>The rest of a turn, for a well-formed batch.\<close>

lemma unpack_five: "length arrays = 5 \<Longrightarrow> unpack_trans (JArr arrays) = Inr arrays"
  by simp

lemma sample_is_no_post [simp]: "\<not> is_post (HttpCompleted (sample_request w) r)"
  by (simp add: sample_request_def)

lemma sample_is_no_update [simp]: "\<not> is_update w (HttpCompleted (sample_request w) r)"
  by (simp add: sample_request_def)

lemma update_is_update [simp]: "is_update w (HttpCompleted (update_request w ps tds) r)"
  by (simp add: update_request_def)

lemma update_is_no_batch [simp]: "\<not> is_batch w (HttpCompleted (update_request w ps tds) r)"
  by (simp add: update_request_def sample_request_def)

lemma clear_is_no_batch [simp]: "\<not> is_batch w (HttpCompleted (clear_request w) r)"
  by (simp add: clear_request_def sample_request_def replay_url_def)

lemma train_on_batch_completes:
  assumes b: "batch_of arrays is_weights points data"
    and t: "sac_train w (sac st2) arrays is_weights = Inr (model, curr_step, td_errors)"
    and u: "fails_then_completes w (update_request w (JArr points) (JArr td_errors)) (attempts st2) msgs r"
  shows "train_on_batch w data st2 =
     Some (None, after_exchange ''exception _update_td_errors: ''
                   (update_request w (JArr points) (JArr td_errors)) msgs r
                   (st2\<lparr>events := events st2 @ [Trained arrays is_weights td_errors], sac := model\<rparr>))"
proof -
  let ?st3 = "st2\<lparr>events := events st2 @ [Trained arrays is_weights td_errors], sac := model\<rparr>"
  from u have "fails_then_completes w (update_request w (JArr points) (JArr td_errors)) (attempts ?st3) msgs r"
    by simp
  from update_td_errors_completes [OF this] b t show ?thesis
    by (simp add: train_on_batch_def batch_of_def)
qed

text \<open>
  C2. A turn of the loop that samples a non-empty batch (\<open>data\<close>, with the arrays, the
  weights and one point for each transition), that reaches the training step (the look
  at the evaluation thread does not raise) and whose training step returns
  \<open>td_errors\<close>, ends normally. Its events after those of the sample call are the
  training step, then the failed attempts of the update, then the one completed update;
  no post and no training step comes before. The completed update is the post to
  \<^verbatim>\<open>/update\<close> of the dictionary with \<^verbatim>\<open>data['points']\<close> under \<^verbatim>\<open>'points'\<close> and
  \<open>td_errors\<close> under \<^verbatim>\<open>'td_errors'\<close>, and it carries as many points as errors when
  the training step returns one error for each transition.
\<close>

theorem priority_update_follows_training:
  assumes s: "get_sampled_data w st = Some (Inr data, st1)"
    and d: "truthy data"
    and b: "batch_of arrays is_weights points data"
    and e: "start_evaluation w st1 = Inr st2"
    and t: "sac_train w (sac st2) arrays is_weights = Inr (model, curr_step, td_errors)"
    and u: "fails_then_completes w
              (POST (replay_url w ''/update'')
                 (JObj [(''points'', JArr points), (''td_errors'', JArr td_errors)]))
              (attempts st2) msgs r"
  shows "\<exists>pre st'. training_iteration w st = Some (None, st')
         \<and> st' = after_exchange ''exception _update_td_errors: ''
                   (POST (replay_url w ''/update'')
                      (JObj [(''points'', JArr points), (''td_errors'', JArr td_errors)])) msgs r
                   (st2\<lparr>events := events st2 @ [Trained arrays is_weights td_errors],
                       sac := model\<rparr>)
         \<and> events st' = events st @ pre @ [Trained arrays is_weights td_errors]
                @ retry_events ''exception _update_td_errors: ''
                    (POST (replay_url w ''/update'')
                       (JObj [(''points'', JArr points), (''td_errors'', JArr td_errors)])) msgs
                @ [HttpCompleted
                     (POST (replay_url w ''/update'')
                        (JObj [(''points'', JArr points), (''td_errors'', JArr td_errors)])) r]
         \<and> events st2 = events st @ pre
         \<and> (\<forall>e \<in> set pre. \<not> is_post e \<and> \<not> is_trained e)
         \<and> filter (is_update w) (drop (length (events st)) (events st'))
             = [HttpCompleted
                  (POST (replay_url w ''/update'')
                     (JObj [(''points'', JArr points), (''td_errors'', JArr td_errors)])) r]
         \<and> subscript data ''points'' = Inr (JArr points)
         \<and> posted_lengths (last (events st')) = Some (length points, length td_errors)
         \<and> (transitions arrays = Some (length td_errors) \<longrightarrow>
              posted_lengths (last (events st')) = Some (length td_errors, length td_errors))"
proof -
  let ?req = "POST (replay_url w ''/update'')
                (JObj [(''points'', JArr points), (''td_errors'', JArr td_errors)])"
  let ?st' = "after_exchange ''exception _update_td_errors: '' ?req msgs r
                (st2\<lparr>events := events st2 @ [Trained arrays is_weights td_errors], sac := model\<rparr>)"
  have req: "update_request w (JArr points) (JArr td_errors) = ?req"
    by (simp add: update_request_def)
  from get_sampled_data_returns [OF s] obtain msgs0 r0 where
    st1: "st1 = after_exchange ''exception _get_sampled_trans: '' (sample_request w) msgs0 r0 st"
    by blast
  let ?sampled = "retry_events ''exception _get_sampled_trans: '' (sample_request w) msgs0
                    @ [HttpCompleted (sample_request w) r0]"
  have plain: "\<not> is_post x \<and> \<not> is_trained x \<and> \<not> is_update w x" if "x \<in> set ?sampled" for x
    using that retry_events_get_no_post [of x _ _ msgs0 w]
    by (auto simp: sample_request_def)
  from start_evaluation_Inr [OF e] obtain pre where
    pre: "events st2 = events st @ pre" "pre = ?sampled \<or> pre = ?sampled @ [EvalStarted]"
    by (auto simp: st1)
  from pre(2) plain have quiet: "\<forall>x \<in> set pre. \<not> is_post x \<and> \<not> is_trained x \<and> \<not> is_update w x"
    by auto
  then have fp: "filter (is_update w) pre = []"
    by (simp add: filter_empty_conv)
  have ev: "events ?st' = events st @ pre @ [Trained arrays is_weights td_errors]
              @ retry_events ''exception _update_td_errors: '' ?req msgs @ [HttpCompleted ?req r]"
    by (simp add: pre(1))
  have f: "filter (is_update w) (drop (length (events st)) (events ?st')) = [HttpCompleted ?req r]"
    by (subst ev) (simp add: fp)
  from u have u': "fails_then_completes w (update_request w (JArr points) (JArr td_errors))
                     (attempts st2) msgs r"
    by (simp add: req)
  have it: "training_iteration w st = Some (None, ?st')"
    using s d e train_on_batch_completes [OF b t u'] by (simp add: training_iteration_def req)
  have pl: "posted_lengths (last (events ?st')) = Some (length points, length td_errors)"
    by (subst ev) simp
  from b have n: "transitions arrays = Some (length td_errors) \<longrightarrow> length points = length td_errors"
    and p: "subscript data ''points'' = Inr (JArr points)"
    by (simp_all add: batch_of_def)
  from n pl have "transitions arrays = Some (length td_errors) \<longrightarrow>
      posted_lengths (last (events ?st')) = Some (length td_errors, length td_errors)"
    by simp
  with it ev pre(1) quiet f p pl show ?thesis
    by blast
qed

theorem priority_update_follows_training_witness:
  "get_sampled_data (scenario_world 3 4) warm_state =
     Some (Inr scenario_batch,
           \<lparr>attempts = 5,
            events = [HttpCompleted (sample_request (scenario_world 3 4))
                        \<lparr>status_code = 200, resp_json = Some scenario_batch\<rparr>],
            t_evaluation = NotStarted, sac = ()\<rparr>)
   \<and> truthy scenario_batch
   \<and> batch_of scenario_arrays (JArr [JNum 1, JNum 1]) [JStr ''a'', JStr ''b''] scenario_batch
   \<and> start_evaluation (scenario_world 3 4)
        \<lparr>attempts = 5,
         events = [HttpCompleted (sample_request (scenario_world 3 4))
                     \<lparr>status_code = 200, resp_json = Some scenario_batch\<rparr>],
         t_evaluation = NotStarted, sac = ()\<rparr>
       = Inr \<lparr>attempts = 5,
              events = [HttpCompleted (sample_request (scenario_world 3 4))
                          \<lparr>status_code = 200, resp_json = Some scenario_batch\<rparr>,
                        EvalStarted],
              t_evaluation = Alive, sac = ()\<rparr>
   \<and> sac_train (scenario_world 3 4) () scenario_arrays (JArr [JNum 1, JNum 1])
       = Inr ((), 1, [JNum 3, JNum 4])
   \<and> fails_then_completes (scenario_world 3 4)
        (POST (replay_url (scenario_world 3 4) ''/update'')
           (JObj [(''points'', JArr [JStr ''a'', JStr ''b'']),
                  (''td_errors'', JArr [JNum 3, JNum 4])]))
        5 [] empty_sample
   \<and> transitions scenario_arrays = Some (length [JNum 3, JNum 4 :: int json])
   \<and> training_iteration (scenario_world 3 4) warm_state =
       Some (None,
         \<lparr>attempts = 6,
          events = [HttpCompleted (GET ''http://127.0.0.1:61000/sample'')
                      \<lparr>status_code = 200, resp_json = Some scenario_batch\<rparr>,
                    EvalStarted,
                    Trained scenario_arrays (JArr [JNum 1, JNum 1]) [JNum 3, JNum 4],
                    HttpCompleted
                      (POST ''http://127.0.0.1:61000/update''
                         (JObj [(''points'', JArr [JStr ''a'', JStr ''b'']),
                                (''td_errors'', JArr [JNum 3, JNum 4])]))
                      empty_sample],
          t_evaluation = Alive, sac = ()\<rparr>)
   \<and> posted_lengths
        (HttpCompleted
           (POST ''http://127.0.0.1:61000/update''
              (JObj [(''points'', JArr [JStr ''a'', JStr ''b'']),
                     (''td_errors'', JArr [JNum 3, JNum 4 :: int json])]))
           empty_sample) = Some (2, 2)"
proof -
  let ?w = "scenario_world 3 4"
  let ?r = "\<lparr>status_code = 200, resp_json = Some scenario_batch\<rparr>"
  let ?s1 = "\<lparr>attempts = 5, events = [HttpCompleted (sample_request ?w) ?r],
              t_evaluation = NotStarted, sac = ()\<rparr>"
  let ?s2 = "\<lparr>attempts = 5, events = [HttpCompleted (sample_request ?w) ?r, EvalStarted],
              t_evaluation = Alive, sac = ()\<rparr>"
  let ?req = "POST (replay_url ?w ''/update'')
                (JObj [(''points'', JArr [JStr ''a'', JStr ''b'']),
                       (''td_errors'', JArr [JNum 3, JNum 4])])"
  have s: "get_sampled_data ?w warm_state = Some (Inr scenario_batch, ?s1)"
    by (simp add: get_sampled_data_at_once scenario_world_def warm_state_def decoded_def
          completed_attempt_def)
  have d: "truthy scenario_batch"
    by (simp add: scenario_batch_def)
  have b: "batch_of scenario_arrays (JArr [JNum 1, JNum 1]) [JStr ''a'', JStr ''b''] scenario_batch"
    by (simp add: batch_of_def scenario_batch_def scenario_arrays_def)
  have e: "start_evaluation ?w ?s1 = Inr ?s2"
    by (simp add: start_evaluation_def is_alive_def)
  have t: "sac_train ?w (sac ?s2) scenario_arrays (JArr [JNum 1, JNum 1]) = Inr ((), 1, [JNum 3, JNum 4])"
    by (simp add: scenario_world_def)
  have u: "fails_then_completes ?w ?req (attempts ?s2) [] empty_sample"
    by (simp add: fails_then_completes_def scenario_world_def)
  have n: "transitions scenario_arrays = Some (length [JNum 3, JNum 4 :: int json])"
    by (simp add: scenario_arrays_def)
  have url: "replay_url ?w p = ''http://127.0.0.1:61000'' @ p" for p
    by (simp add: replay_url_def scenario_world_def)
  from priority_update_follows_training [OF s d b e t u]
  have "training_iteration ?w warm_state =
           Some (None, after_exchange ''exception _update_td_errors: '' ?req [] empty_sample
                   (?s2\<lparr>events := events ?s2 @ [Trained scenario_arrays (JArr [JNum 1, JNum 1]) [JNum 3, JNum 4]],
                       sac := ()\<rparr>))"
    by blast
  with s d b e t u n show ?thesis
    by (simp add: after_exchange_def retry_events_def url sample_request_def)
qed

text \<open>
  A non-empty batch that arrives after the evaluation thread has ended does not reach
  the training step: \<^verbatim>\<open>start()\<close> raises, and the turn ends with that exception in
  the state that the sample call left.
\<close>

lemma batch_meets_ended_thread:
  assumes "get_sampled_data w st = Some (Inr data, st1)" and "truthy data"
    and "start_evaluation w st1 = Inl err"
  shows "training_iteration w st = Some (Some err, st1)"
  using assms by (simp add: training_iteration_def)

subsection \<open>The start of the evaluation thread\<close>

text \<open>\<open>started_once\<close> holds after the buffer is cleared and is kept by every turn.\<close>

lemma started_once_append:
  assumes inv: "started_once w st"
    and t: "t_evaluation st' = t_evaluation st"
    and ev: "events st' = events st @ new"
    and ne: "EvalStarted \<notin> set new"
    and q: "t_evaluation st = NotStarted \<Longrightarrow> \<forall>e \<in> set new. \<not> is_batch w e"
  shows "started_once w st'"
proof (cases "t_evaluation st = NotStarted")
  case True
  with inv have "\<forall>e \<in> set (events st). quiet w e"
    by (auto simp: started_once_def)
  moreover from q [OF True] ne have "\<forall>e \<in> set new. quiet w e"
    by (auto simp: quiet_def)
  ultimately show ?thesis
    using True t ev by (auto simp: started_once_def)
next
  case False
  with inv obtain pre b post where
    d: "events st = pre @ b # EvalStarted # post" "is_batch w b"
       "\<forall>e \<in> set pre. quiet w e" "EvalStarted \<notin> set post"
    by (auto simp: started_once_def)
  from d(1) ev have "events st' = pre @ b # EvalStarted # (post @ new)"
    by simp
  moreover from d(4) ne have "EvalStarted \<notin> set (post @ new)"
    by simp
  ultimately have "\<exists>pre b post. events st' = pre @ b # EvalStarted # post \<and> is_batch w b \<and>
         (\<forall>e \<in> set pre. quiet w e) \<and> EvalStarted \<notin> set post"
    using d(2,3) by blast
  moreover from False t have "t_evaluation st' \<noteq> NotStarted"
    by simp
  ultimately show ?thesis
    by (simp add: started_once_def)
qed

lemma train_on_batch_events:
  assumes "train_on_batch w data st2 = Some (res, st')"
  shows "t_evaluation st' = t_evaluation st2 \<and>
         (\<exists>rest. events st' = events st2 @ rest \<and> (\<forall>e \<in> set rest. quiet w e))"
proof (cases "\<exists>e. res = Some e")
  case True
  with assms have "st' = st2 \<or> (\<exists>a i td m. st' = st2\<lparr>events := events st2 @ [Trained a i td], sac := m\<rparr>)"
    by (auto simp: train_on_batch_def Let_def split: sum.splits prod.splits)
  then show ?thesis
    by (auto simp: quiet_def)
next
  case False
  with assms obtain a i td m ps st3 where
    st3: "st3 = st2\<lparr>events := events st2 @ [Trained a i td], sac := m\<rparr>"
    and u: "update_td_errors w ps (JArr td) st3 = Some st'"
    by (auto simp: train_on_batch_def Let_def split: sum.splits prod.splits)
  from update_td_errors_returns [OF u] obtain msgs r where
    "st' = after_exchange ''exception _update_td_errors: '' (update_request w ps (JArr td)) msgs r st3"
    by blast
  with st3 show ?thesis
    by (auto simp: quiet_def update_request_def sample_request_def
          dest: retry_events_quiet [where w = w, unfolded quiet_def])
qed

lemma iteration_started_once:
  assumes inv: "started_once w st"
    and it: "training_iteration w st = Some (res, st')"
  shows "started_once w st'"
proof -
  from it obtain d st1 where s: "get_sampled_data w st = Some (d, st1)"
    by (auto simp: training_iteration_def split: option.splits)
  from get_sampled_data_returns [OF s] obtain msgs r where
    d: "d = decoded r"
    and st1: "st1 = after_exchange ''exception _get_sampled_trans: '' (sample_request w) msgs r st"
    by blast
  let ?b = "HttpCompleted (sample_request w) r"
  let ?retry = "retry_events ''exception _get_sampled_trans: '' (sample_request w) msgs"
  have rq: "\<forall>e \<in> set ?retry. quiet w e"
    by (auto dest: retry_events_quiet)
  then have rn: "EvalStarted \<notin> set ?retry"
    by (auto simp: quiet_def)
  have ev1: "events st1 = events st @ ?retry @ [?b]" and t1: "t_evaluation st1 = t_evaluation st"
    by (simp_all add: st1)
  show ?thesis
  proof (cases "is_batch w ?b")
    case False
    with it s d have \<open>st' = st1\<close>
      by (auto simp: training_iteration_def decoded_def split: option.splits)
    have "started_once w st1"
      using False rq rn by (intro started_once_append [OF inv t1 ev1]) (auto simp: quiet_def)
    with \<open>st' = st1\<close> show ?thesis
      by simp
  next
    case True
    then obtain v where v: "d = Inr v" "truthy v"
      by (auto simp: d decoded_def split: option.splits)
    show ?thesis
    proof (cases "start_evaluation w st1")
      case (Inl e)
      with it s v have eq: "st' = st1"
        by (simp add: training_iteration_def)
      from start_evaluation_Inl [OF Inl] have "t_evaluation st \<noteq> NotStarted"
        by (simp add: t1)
      with rn have "started_once w st1"
        by (intro started_once_append [OF inv t1 ev1]) auto
      with eq show ?thesis
        by simp
    next
      case (Inr st2)
      with it s v have tb: "train_on_batch w v st2 = Some (res, st')"
        by (simp add: training_iteration_def)
      from train_on_batch_events [OF tb] obtain rest where
        t': "t_evaluation st' = t_evaluation st2"
        and ev': "events st' = events st2 @ rest" and q: "\<forall>e \<in> set rest. quiet w e"
        by blast
      from start_evaluation_Inr [OF Inr] show ?thesis
      proof
        assume a: "t_evaluation st1 = NotStarted \<and>
          st2 = st1\<lparr>events := events st1 @ [EvalStarted], t_evaluation := Alive\<rparr>"
        with inv t1 have old: "\<forall>e \<in> set (events st). quiet w e"
          by (auto simp: started_once_def)
        from a ev1 ev' have "events st' = (events st @ ?retry) @ ?b # EvalStarted # rest"
          by simp
        moreover from old rq have "\<forall>e \<in> set (events st @ ?retry). quiet w e"
          by auto
        moreover from q have "EvalStarted \<notin> set rest"
          by (auto simp: quiet_def)
        moreover from a t' have "t_evaluation st' \<noteq> NotStarted"
          by simp
        ultimately show ?thesis
          using True unfolding started_once_def by blast
      next
        assume a: "t_evaluation st1 = Alive \<and> st2 = st1"
        with ev1 ev' have "events st' = events st @ (?retry @ [?b] @ rest)"
          by simp
        moreover from q rn have "EvalStarted \<notin> set (?retry @ [?b] @ rest)"
          by (auto simp: quiet_def)
        moreover from a t' t1 have "t_evaluation st' = t_evaluation st" "t_evaluation st \<noteq> NotStarted"
          by simp_all
        ultimately show ?thesis
          using started_once_append [OF inv, of st' "?retry @ [?b] @ rest"] by simp
      qed
    qed
  qed
qed

lemma loop_started_once:
  "started_once w st \<Longrightarrow> training_loop n w st = Some (res, st') \<Longrightarrow> started_once w st'"
proof (induction n arbitrary: st)
  case 0
  then show ?case by simp
next
  case (Suc n)
  from Suc.prems(2) obtain r1 s1 where it: "training_iteration w st = Some (r1, s1)"
    by (auto split: option.splits)
  from iteration_started_once [OF Suc.prems(1) it] have inv1: "started_once w s1" .
  show ?case
  proof (cases r1)
    case None
    with Suc.prems(2) it have "training_loop n w s1 = Some (res, st')"
      by simp
    with inv1 show ?thesis by (rule Suc.IH)
  next
    case (Some e)
    with Suc.prems(2) it have "st' = s1" by simp
    with inv1 show ?thesis by simp
  qed
qed

lemma client_started_once:
  assumes r: "run_training_client n w st0 = Some (res, st)"
    and e: "events st0 = []"
  shows "started_once w st"
proof -
  from r obtain s1 where c: "clear_replay_buffer w (st0\<lparr>t_evaluation := NotStarted\<rparr>) = Some s1"
    and l: "training_loop n w s1 = Some (res, st)"
    by (auto simp: run_training_client_def split: option.splits)
  from clear_replay_buffer_returns [OF c] obtain msgs r where
    "s1 = after_exchange ''_clear_replay_buffer: '' (clear_request w) msgs r
            (st0\<lparr>t_evaluation := NotStarted\<rparr>)"
    by blast
  with e have "started_once w s1"
    by (auto simp: started_once_def quiet_def clear_request_def sample_request_def replay_url_def
          dest: retry_events_quiet [where w = w, unfolded quiet_def])
  then show ?thesis using l by (rule loop_started_once)
qed

lemma started_once_count:
  "started_once w st \<Longrightarrow> count_list (events st) EvalStarted \<le> 1"
  by (auto simp: started_once_def quiet_def count_list_0_iff)

text \<open>
  C6. In every run of \<^verbatim>\<open>_run_training_client\<close>, after any number of turns and whether
  or not the last one raised, the evaluation thread has been started at most once. It
  has been started exactly when a non-empty batch has arrived, and then the start comes
  right after the first non-empty batch, with no start before or after. (A thread that
  has ended is not started again: \<^verbatim>\<open>start()\<close> raises and ends the loop.)
\<close>

theorem evaluation_started_once:
  assumes "run_training_client n w st0 = Some (res, st)" and "events st0 = []"
  shows "count_list (events st) EvalStarted \<le> 1
       \<and> ((\<exists>e \<in> set (events st). is_batch w e) \<longrightarrow>
            (\<exists>pre b post. events st = pre @ b # EvalStarted # post \<and> is_batch w b \<and>
               (\<forall>e \<in> set pre. \<not> is_batch w e \<and> e \<noteq> EvalStarted) \<and> EvalStarted \<notin> set post))
       \<and> ((\<forall>e \<in> set (events st). \<not> is_batch w e) \<longrightarrow> EvalStarted \<notin> set (events st))"
proof -
  from client_started_once [OF assms] have inv: "started_once w st" .
  from inv have "count_list (events st) EvalStarted \<le> 1"
    by (rule started_once_count)
  moreover from inv have "(\<exists>e \<in> set (events st). is_batch w e) \<longrightarrow>
            (\<exists>pre b post. events st = pre @ b # EvalStarted # post \<and> is_batch w b \<and>
               (\<forall>e \<in> set pre. \<not> is_batch w e \<and> e \<noteq> EvalStarted) \<and> EvalStarted \<notin> set post)"
    unfolding started_once_def quiet_def by blast
  moreover from inv have "(\<forall>e \<in> set (events st). \<not> is_batch w e) \<longrightarrow> EvalStarted \<notin> set (events st)"
    unfolding started_once_def quiet_def by auto
  ultimately show ?thesis by blast
qed

text \<open>Two turns with a batch each: one start.\<close>

lemma busy_run:
  "run_training_client 2 busy_world idle_state =
     Some (None, \<lparr>attempts = 5, events = busy_events, t_evaluation = Alive, sac = ()\<rparr>)"
proof -
  have r: "replay busy_world k req = Completes batch_response" for k req
    by (simp add: busy_world_def batch_response_def)
  have u [simp]: "replay_url busy_world p = ''http://127.0.0.1:61000'' @ p" for p
    by (simp add: replay_url_def busy_world_def)
  have t [simp]: "sac_train busy_world m a i = Inr (m, 1, [JNum 7, JNum 8])" for m a i
    by (simp add: busy_world_def)
  have d [simp]: "eval_dies busy_world k = False" for k
    by (simp add: busy_world_def)
  have j [simp]: "resp_json batch_response = Some scenario_batch"
    by (simp add: batch_response_def)
  show ?thesis
    by (simp add: run_training_client_def numeral_eq_Suc training_iteration_def
          clear_replay_buffer_at_once get_sampled_data_at_once update_td_errors_at_once r
          completed_attempt_def idle_state_def decoded_def busy_events_def
          start_evaluation_def is_alive_def train_on_batch_def scenario_batch_def
          scenario_arrays_def sample_request_def clear_request_def update_request_def)
qed

text \<open>
  When the evaluation thread has ended, the next non-empty batch makes \<^verbatim>\<open>start()\<close>
  raise; the thread is not started a second time and the loop ends.
\<close>

lemma dead_evaluation_thread_is_not_restarted:
  "run_training_client 2 fragile_world idle_state =
     Some (Some RuntimeError,
           \<lparr>attempts = 4,
            events = take 5 busy_events
              @ [HttpCompleted (GET ''http://127.0.0.1:61000/sample'') batch_response],
            t_evaluation = Alive, sac = ()\<rparr>)"
proof -
  have r: "replay fragile_world k req = Completes batch_response" for k req
    by (simp add: busy_world_def fragile_world_def batch_response_def)
  have u [simp]: "replay_url fragile_world p = ''http://127.0.0.1:61000'' @ p" for p
    by (simp add: replay_url_def busy_world_def fragile_world_def)
  have t [simp]: "sac_train fragile_world m a i = Inr (m, 1, [JNum 7, JNum 8])" for m a i
    by (simp add: busy_world_def fragile_world_def)
  have d [simp]: "eval_dies fragile_world k = True" for k
    by (simp add: fragile_world_def)
  have j [simp]: "resp_json batch_response = Some scenario_batch"
    by (simp add: batch_response_def)
  show ?thesis
    by (simp add: run_training_client_def numeral_eq_Suc training_iteration_def
          clear_replay_buffer_at_once get_sampled_data_at_once update_td_errors_at_once r
          completed_attempt_def idle_state_def decoded_def busy_events_def
          start_evaluation_def is_alive_def train_on_batch_def scenario_batch_def
          scenario_arrays_def sample_request_def clear_request_def update_request_def)
qed

theorem evaluation_started_once_witness:
  "run_training_client 2 busy_world idle_state =
     Some (None, \<lparr>attempts = 5, events = busy_events, t_evaluation = Alive, sac = ()\<rparr>)
   \<and> events idle_state = []
   \<and> length (filter (is_batch busy_world) busy_events) = 2
   \<and> count_list busy_events EvalStarted \<le> 1"
proof -
  have e: "events idle_state = []"
    by (simp add: idle_state_def)
  have b: "length (filter (is_batch busy_world) busy_events) = 2"
    by (simp add: busy_events_def sample_request_def replay_url_def busy_world_def
          batch_response_def scenario_batch_def)
  from evaluation_started_once [OF busy_run e]
  have "count_list busy_events EvalStarted \<le> 1"
    by simp
  with busy_run e b show ?thesis
    by blast
qed

end
